theory Spec2Isabelle
  imports Main "HOL-Library.Multiset"
begin

section \<open>Data model (lib/types)\<close>

text \<open>
  The interfaces of the types module, one record per interface. An optional property
  (\<^verbatim>\<open>description?: string\<close>) is an \<open>option\<close>. Numbers that hold
  \<^verbatim>\<open>Date.now()\<close> results are integers. Strings are lists of code units; the
  8-bit \<open>char\<close> of HOL covers the code units below 256.
\<close>

record Tab =
  tab_id :: string
  title :: string
  url :: string
  favIconUrl :: "string option"
  tab_createdAt :: int

record Group =
  group_id :: string
  name :: string
  description :: "string option"
  tabs :: "Tab list"
  createdAt :: int
  updatedAt :: int

record Settings =
  closeAndSave :: bool
  oauthToken :: "string option"
  gistId :: "string option"
  githubClientId :: "string option"
  githubClientSecret :: "string option"

record UserInfo =
  user_login :: string
  user_id :: int
  avatar_url :: string
  html_url :: string

record AuthState =
  isSignedIn :: bool
  login :: string
  userInfo :: "UserInfo option"
  token :: "string option"

record StorageData =
  groups :: "Group list"
  settings :: Settings

section \<open>Errors\<close>

text \<open>
  The code throws plain \<^verbatim>\<open>Error\<close> objects that differ in their message only.
  Each constructor stands for one \<^verbatim>\<open>throw\<close> (or \<^verbatim>\<open>reject\<close>) site and
  carries what the message interpolates.
\<close>

datatype error =
    CannotDeleteDefault            \<comment> \<open>"Cannot delete default group"\<close>
  | GroupNotFound string           \<comment> \<open>"Group ... not found"\<close>
  | InvalidTabIds "string list"    \<comment> \<open>"Invalid tab IDs: ..."\<close>
  | MustIncludeAllTabs             \<comment> \<open>"New order must include all tabs"\<close>
  | InvalidGroupIds "string list"  \<comment> \<open>"Invalid group IDs: ..."\<close>
  | MustIncludeAllGroups           \<comment> \<open>"New order must include all groups"\<close>
  | SourceGroupNotFound string     \<comment> \<open>"Source group ... not found"\<close>
  | TargetGroupNotFound string     \<comment> \<open>"Target group ... not found"\<close>
  | TabNotFoundInSource string     \<comment> \<open>"Tab ... not found in source group"\<close>
  | EmptyGroupName                 \<comment> \<open>"Group name cannot be empty"\<close>
  | DuplicateGroupName string      \<comment> \<open>"Group with name ... already exists"\<close>
  | AuthRequired                   \<comment> \<open>ensureAuthenticated: the user has to sign in first\<close>
  | MissingClientId                \<comment> \<open>signIn: no client id in the settings\<close>
  | MissingClientSecret            \<comment> \<open>signIn: no client secret in the settings\<close>
  | OAuthLastError string          \<comment> \<open>the message of chrome.runtime.lastError\<close>
  | OAuthCancelled                 \<comment> \<open>"OAuth flow was cancelled"\<close>
  | AccessDenied                   \<comment> \<open>the user refused; the message asks to press "Authorize"\<close>
  | OAuthError string              \<comment> \<open>error_description, or else error, of the callback\<close>
  | NoAuthorizationCode            \<comment> \<open>"No authorization code received"\<close>
  | VerifierNotFound               \<comment> \<open>"Code verifier not found"\<close>
  | TokenExchangeFailed string     \<comment> \<open>"Token exchange failed: ..."\<close>
  | TokenError string              \<comment> \<open>"Token error: ..."\<close>
  | NoAccessToken                  \<comment> \<open>"No access token received"\<close>
  | FetchFailed string             \<comment> \<open>fetch itself rejected\<close>
  | TokenInvalid401                \<comment> \<open>GET /user answered 401\<close>
  | RateLimited                    \<comment> \<open>GET /user answered 403 with no quota left\<close>
  | Forbidden403                   \<comment> \<open>GET /user answered 403\<close>
  | HttpFailure nat                \<comment> \<open>GET /user answered another status\<close>

section \<open>The world: storage, clock and module state\<close>

text \<open>
  \<open>store\<close> is the value under the key \<^verbatim>\<open>tabManagerData\<close> of
  \<^verbatim>\<open>chrome.storage.local\<close> and \<open>oauthCodeVerifier\<close> the value under the key of
  that name. \<open>clock\<close> lists the results of the successive calls of
  \<^verbatim>\<open>Date.now()\<close> and \<open>reads\<close> counts the calls made so far. \<open>auth\<close> and
  \<open>isUpdatingToken\<close> are the module variables of the auth service, \<open>notified\<close> logs
  every state handed to the listeners, and \<open>launches\<close> counts the interactive
  authorisation flows started.
\<close>

record world =
  store :: "StorageData option"
  oauthCodeVerifier :: "string option"
  clock :: "nat \<Rightarrow> int"
  reads :: nat
  auth :: AuthState
  isUpdatingToken :: bool
  notified :: "AuthState list"
  launches :: nat

definition Date_now :: "world \<Rightarrow> int \<times> world" where
  "Date_now w = (clock w (reads w), w\<lparr>reads := Suc (reads w)\<rparr>)"

text \<open>JavaScript truthiness of an optional string: present and not empty.\<close>

fun truthy :: "string option \<Rightarrow> bool" where
  "truthy None = False"
| "truthy (Some s) = (s \<noteq> [])"

section \<open>Group helpers (lib/utils/groups)\<close>

definition createDefaultGroup :: "world \<Rightarrow> Group \<times> world" where
  "createDefaultGroup w =
     (let (now, w1) = Date_now w in
      (\<lparr>group_id = ''default'', name = ''Default'', description = None, tabs = [],
        createdAt = now, updatedAt = now\<rparr>, w1))"

definition findGroupById :: "Group list \<Rightarrow> string \<Rightarrow> Group option" where
  "findGroupById gs i = List.find (\<lambda>g. group_id g = i) gs"

text \<open>Decimal digits of a number, as a template literal prints an integer.\<close>

fun digits :: "nat \<Rightarrow> string" where
  "digits n =
     (if n < 10 then [char_of (48 + n)]
      else digits (n div 10) @ [char_of (48 + n mod 10)])"

declare digits.simps [simp del]

definition showInt :: "int \<Rightarrow> string" where
  "showInt i = (if i < 0 then CHR ''-'' # digits (nat (- i)) else digits (nat i))"

text \<open>
  \<open>rnd\<close> is the string \<^verbatim>\<open>Math.random().toString(36).substring(2, 9)\<close>, an input
  of the model.
\<close>

definition generateGroupId :: "string \<Rightarrow> world \<Rightarrow> string \<times> world" where
  "generateGroupId rnd w =
     (let (now, w1) = Date_now w in (''group_'' @ showInt now @ ''_'' @ rnd, w1))"

definition createNewGroup :: "string \<Rightarrow> string \<Rightarrow> string option \<Rightarrow> world \<Rightarrow> Group \<times> world" where
  "createNewGroup rnd nm desc w =
     (let (now, w1) = Date_now w;
          (gid, w2) = generateGroupId rnd w1
      in (\<lparr>group_id = gid, name = nm, description = desc, tabs = [],
           createdAt = now, updatedAt = now\<rparr>, w2))"

section \<open>Array helpers\<close>

text \<open>\<^verbatim>\<open>Array.prototype.findIndex\<close>; \<open>None\<close> stands for the result -1.\<close>

fun findIndex :: "('a \<Rightarrow> bool) \<Rightarrow> 'a list \<Rightarrow> nat option" where
  "findIndex P [] = None"
| "findIndex P (x # xs) = (if P x then Some 0 else map_option Suc (findIndex P xs))"

text \<open>\<^verbatim>\<open>xs.splice(i, 1)\<close>: the list without its element at index \<open>i\<close>.\<close>

definition splice1 :: "nat \<Rightarrow> 'a list \<Rightarrow> 'a list" where
  "splice1 i xs = take i xs @ drop (Suc i) xs"

text \<open>
  \<^verbatim>\<open>find\<close> returns a reference to the first matching element of the array, so an
  assignment to a property of the result changes that element in place.
  \<open>modify_first P f xs\<close> applies the change \<open>f\<close> to the first element satisfying \<open>P\<close>.
\<close>

fun modify_first :: "('a \<Rightarrow> bool) \<Rightarrow> ('a \<Rightarrow> 'a) \<Rightarrow> 'a list \<Rightarrow> 'a list" where
  "modify_first P f [] = []"
| "modify_first P f (x # xs) = (if P x then f x # xs else x # modify_first P f xs)"

text \<open>
  \<^verbatim>\<open>new Map(xs.map((x) => [key(x), x]))\<close>: a later entry replaces an earlier one
  with the same key.
\<close>

definition mapById :: "('a \<Rightarrow> string) \<Rightarrow> 'a list \<Rightarrow> (string \<rightharpoonup> 'a)" where
  "mapById key xs = map_of (rev (map (\<lambda>x. (key x, x)) xs))"

section \<open>Persistent store (lib/services/storage)\<close>

definition getStorageData :: "world \<Rightarrow> StorageData \<times> world" where
  "getStorageData w =
     (case store w of
        Some data \<Rightarrow> (data, w)
      | None \<Rightarrow>
          (let (g, w1) = createDefaultGroup w in
           (\<lparr>groups = [g],
             settings = \<lparr>closeAndSave = False, oauthToken = None, gistId = None,
                         githubClientId = None, githubClientSecret = None\<rparr>\<rparr>, w1)))"

definition saveStorageData :: "StorageData \<Rightarrow> world \<Rightarrow> world" where
  "saveStorageData data w = w\<lparr>store := Some data\<rparr>"

definition initStorage :: "world \<Rightarrow> world" where
  "initStorage w =
     (let (data, w1) = getStorageData w in
      if list_ex (\<lambda>g. group_id g = ''default'') (groups data) then w1
      else (let (g, w2) = createDefaultGroup w1 in
            saveStorageData (data\<lparr>groups := g # groups data\<rparr>) w2))"

definition getGroups :: "world \<Rightarrow> Group list \<times> world" where
  "getGroups w = (let (data, w1) = getStorageData w in (groups data, w1))"

definition saveGroup :: "Group \<Rightarrow> world \<Rightarrow> (error + unit) \<times> world" where
  "saveGroup grp w =
     (let (data, w1) = getStorageData w;
          index = findIndex (\<lambda>g. group_id g = group_id grp) (groups data);
          (now, w2) = Date_now w1;
          gs = (case index of
                  Some i \<Rightarrow> (groups data)[i := grp\<lparr>updatedAt := now\<rparr>]
                | None \<Rightarrow> groups data @ [grp\<lparr>updatedAt := now\<rparr>])
      in (Inr (), saveStorageData (data\<lparr>groups := gs\<rparr>) w2))"

definition deleteGroup :: "string \<Rightarrow> world \<Rightarrow> (error + unit) \<times> world" where
  "deleteGroup groupId w =
     (let (data, w1) = getStorageData w in
      if groupId = ''default'' then (Inl CannotDeleteDefault, w1)
      else (Inr (),
            saveStorageData
              (data\<lparr>groups := filter (\<lambda>g. group_id g \<noteq> groupId) (groups data)\<rparr>) w1))"

definition addTabsToGroup :: "string \<Rightarrow> Tab list \<Rightarrow> world \<Rightarrow> (error + unit) \<times> world" where
  "addTabsToGroup groupId ts w =
     (let (data, w1) = getStorageData w in
      case findGroupById (groups data) groupId of
        None \<Rightarrow> (Inl (GroupNotFound groupId), w1)
      | Some grp \<Rightarrow>
          (let existingUrls = map url (tabs grp);
               newTabs = filter (\<lambda>t. url t \<notin> set existingUrls) ts;
               (now, w2) = Date_now w1;
               gs = modify_first (\<lambda>g. group_id g = groupId)
                      (\<lambda>g. g\<lparr>tabs := tabs g @ newTabs, updatedAt := now\<rparr>) (groups data)
           in (Inr (), saveStorageData (data\<lparr>groups := gs\<rparr>) w2)))"

definition removeTabFromGroup :: "string \<Rightarrow> string \<Rightarrow> world \<Rightarrow> (error + unit) \<times> world" where
  "removeTabFromGroup groupId tabId w =
     (let (data, w1) = getStorageData w in
      case findGroupById (groups data) groupId of
        None \<Rightarrow> (Inl (GroupNotFound groupId), w1)
      | Some grp \<Rightarrow>
          (let (now, w2) = Date_now w1;
               gs = modify_first (\<lambda>g. group_id g = groupId)
                      (\<lambda>g. g\<lparr>tabs := filter (\<lambda>t. tab_id t \<noteq> tabId) (tabs g),
                              updatedAt := now\<rparr>) (groups data)
           in (Inr (), saveStorageData (data\<lparr>groups := gs\<rparr>) w2)))"

definition reorderTabsInGroup :: "string \<Rightarrow> string list \<Rightarrow> world \<Rightarrow> (error + unit) \<times> world" where
  "reorderTabsInGroup groupId newOrder w =
     (let (data, w1) = getStorageData w in
      case findGroupById (groups data) groupId of
        None \<Rightarrow> (Inl (GroupNotFound groupId), w1)
      | Some grp \<Rightarrow>
          (let existingIds = map tab_id (tabs grp);
               invalidIds = filter (\<lambda>i. i \<notin> set existingIds) newOrder
           in if length invalidIds > 0 then (Inl (InvalidTabIds invalidIds), w1)
              else if length newOrder \<noteq> length (tabs grp) then (Inl MustIncludeAllTabs, w1)
              else
                (let tabMap = mapById tab_id (tabs grp);
                     reorderedTabs = map (\<lambda>i. the (tabMap i)) newOrder;
                     (now, w2) = Date_now w1;
                     gs = modify_first (\<lambda>g. group_id g = groupId)
                            (\<lambda>g. g\<lparr>tabs := reorderedTabs, updatedAt := now\<rparr>) (groups data)
                 in (Inr (), saveStorageData (data\<lparr>groups := gs\<rparr>) w2))))"

definition reorderGroups :: "string list \<Rightarrow> world \<Rightarrow> (error + unit) \<times> world" where
  "reorderGroups newOrder w =
     (let (data, w1) = getStorageData w;
          existingIds = map group_id (groups data);
          invalidIds = filter (\<lambda>i. i \<notin> set existingIds) newOrder
      in if length invalidIds > 0 then (Inl (InvalidGroupIds invalidIds), w1)
         else if length newOrder \<noteq> length (groups data) then (Inl MustIncludeAllGroups, w1)
         else
           (let groupMap = mapById group_id (groups data);
                reorderedGroups = map (\<lambda>i. the (groupMap i)) newOrder
            in (Inr (), saveStorageData (data\<lparr>groups := reorderedGroups\<rparr>) w1)))"

definition moveTabBetweenGroups ::
  "string \<Rightarrow> string \<Rightarrow> string \<Rightarrow> world \<Rightarrow> (error + unit) \<times> world" where
  "moveTabBetweenGroups tabId fromGroupId toGroupId w =
     (if fromGroupId = toGroupId then (Inr (), w)
      else
        (let (data, w1) = getStorageData w in
         case findGroupById (groups data) fromGroupId of
           None \<Rightarrow> (Inl (SourceGroupNotFound fromGroupId), w1)
         | Some fromGroup \<Rightarrow>
         (case findGroupById (groups data) toGroupId of
           None \<Rightarrow> (Inl (TargetGroupNotFound toGroupId), w1)
         | Some toGroup \<Rightarrow>
         (case findIndex (\<lambda>t. tab_id t = tabId) (tabs fromGroup) of
           None \<Rightarrow> (Inl (TabNotFoundInSource tabId), w1)
         | Some tabIndex \<Rightarrow>
             (let tab = tabs fromGroup ! tabIndex;
                  fromTabs = splice1 tabIndex (tabs fromGroup);
                  (now1, w2) = Date_now w1;
                  kept = (case findIndex (\<lambda>t. url t = url tab) (tabs toGroup) of
                            None \<Rightarrow> tabs toGroup
                          | Some existingTabIndex \<Rightarrow> splice1 existingTabIndex (tabs toGroup));
                  toTabs = kept @ [tab];
                  (now2, w3) = Date_now w2;
                  gs = modify_first (\<lambda>g. group_id g = toGroupId)
                         (\<lambda>g. g\<lparr>tabs := toTabs, updatedAt := now2\<rparr>)
                         (modify_first (\<lambda>g. group_id g = fromGroupId)
                            (\<lambda>g. g\<lparr>tabs := fromTabs, updatedAt := now1\<rparr>) (groups data))
              in (Inr (), saveStorageData (data\<lparr>groups := gs\<rparr>) w3))))))"

text \<open>
  \<^verbatim>\<open>String.prototype.trim\<close> and \<^verbatim>\<open>toLowerCase\<close> on code units below 256:
  the white space and line terminators there are U+0009 to U+000D, U+0020 and U+00A0;
  the letters with a lower-case form are A to Z and U+00C0 to U+00DE without U+00D7,
  each 32 below its lower-case form.
\<close>

definition isWhiteSpace :: "char \<Rightarrow> bool" where
  "isWhiteSpace c =
     (c \<in> set [CHR 0x09, CHR 0x0A, CHR 0x0B, CHR 0x0C, CHR 0x0D, CHR 0x20, CHR 0xA0])"

definition trim :: "string \<Rightarrow> string" where
  "trim s = rev (dropWhile isWhiteSpace (rev (dropWhile isWhiteSpace s)))"

definition lowerChar :: "char \<Rightarrow> char" where
  "lowerChar c =
     (let n = (of_char c :: nat) in
      if 65 \<le> n \<and> n \<le> 90 then char_of (n + 32)
      else if 192 \<le> n \<and> n \<le> 222 \<and> n \<noteq> 215 then char_of (n + 32)
      else c)"

definition toLowerCase :: "string \<Rightarrow> string" where
  "toLowerCase s = map lowerChar s"

definition createGroup ::
  "string \<Rightarrow> string \<Rightarrow> string option \<Rightarrow> world \<Rightarrow> (error + Group) \<times> world" where
  "createGroup rnd nm desc w =
     (if nm = [] \<or> trim nm = [] then (Inl EmptyGroupName, w)
      else
        (let (data, w1) = getStorageData w in
         case List.find (\<lambda>g. toLowerCase (trim (name g)) = toLowerCase (trim nm)) (groups data) of
           Some existingGroup \<Rightarrow> (Inl (DuplicateGroupName nm), w1)
         | None \<Rightarrow>
             (let (newGroup, w2) = createNewGroup rnd (trim nm) (map_option trim desc) w1
              in (Inr newGroup,
                  saveStorageData (data\<lparr>groups := groups data @ [newGroup]\<rparr>) w2))))"

definition getSettings :: "world \<Rightarrow> Settings \<times> world" where
  "getSettings w = (let (data, w1) = getStorageData w in (settings data, w1))"

text \<open>
  The argument of \<^verbatim>\<open>saveSettings\<close> is an object literal whose optional keys may be
  absent (\<open>None\<close>) or present, and a present key may hold \<^verbatim>\<open>undefined\<close>
  (\<open>Some None\<close>). \<open>spread s\<close> is \<^verbatim>\<open>{ ...s }\<close> for settings \<open>s\<close> read from the
  store, where a key without a value is absent. The merge
  \<^verbatim>\<open>{ ...data.settings, ...settings }\<close> lets every present key of the argument win;
  the store then keeps the keys that hold a value.
\<close>

record SettingsArg =
  closeAndSave_arg :: bool
  oauthToken_arg :: "string option option"
  gistId_arg :: "string option option"
  githubClientId_arg :: "string option option"
  githubClientSecret_arg :: "string option option"

definition spread :: "Settings \<Rightarrow> SettingsArg" where
  "spread s =
     \<lparr>closeAndSave_arg = closeAndSave s,
      oauthToken_arg = map_option Some (oauthToken s),
      gistId_arg = map_option Some (gistId s),
      githubClientId_arg = map_option Some (githubClientId s),
      githubClientSecret_arg = map_option Some (githubClientSecret s)\<rparr>"

definition mergeKey :: "'a option \<Rightarrow> 'a option option \<Rightarrow> 'a option" where
  "mergeKey old new = (case new of None \<Rightarrow> old | Some v \<Rightarrow> v)"

definition saveSettings :: "SettingsArg \<Rightarrow> world \<Rightarrow> world" where
  "saveSettings s w =
     (let (data, w1) = getStorageData w;
          old = settings data;
          merged = \<lparr>closeAndSave = closeAndSave_arg s,
                    oauthToken = mergeKey (oauthToken old) (oauthToken_arg s),
                    gistId = mergeKey (gistId old) (gistId_arg s),
                    githubClientId = mergeKey (githubClientId old) (githubClientId_arg s),
                    githubClientSecret =
                      mergeKey (githubClientSecret old) (githubClientSecret_arg s)\<rparr>
      in saveStorageData (data\<lparr>settings := merged\<rparr>) w1)"

section \<open>The remote side and the host, as inputs\<close>

text \<open>
  What the identity provider, the remote API and the browser answer is not code of the
  program. An \<open>env\<close> fixes these answers for one operation: the string that
  \<^verbatim>\<open>generateCodeVerifier\<close> draws, the outcome of
  \<^verbatim>\<open>chrome.identity.launchWebAuthFlow\<close> (the query parameters of the callback URL
  as a list of pairs, read like \<^verbatim>\<open>URLSearchParams.get\<close>: first match), the answer
  of the token endpoint, and the answer of \<^verbatim>\<open>GET /user\<close> for each token.
\<close>

datatype flow_outcome =
    FlowLastError string
  | FlowNoCallback
  | FlowCallback "(string \<times> string) list"

datatype token_response =
    TokenFetchFailed string
  | TokenNotOk string
  | TokenJson "string option" "string option" "string option"
      \<comment> \<open>the properties error, error_description and access_token of the body\<close>

datatype user_response =
    UserFetchFailed string
  | UserNotOk nat "string option"
      \<comment> \<open>status and the header x-ratelimit-remaining of a response that is not ok\<close>
  | UserOk UserInfo

record env =
  newVerifier :: string
  flow :: flow_outcome
  tokenEndpoint :: token_response
  userEndpoint :: "string \<Rightarrow> user_response"

section \<open>Remote API client (lib/services/github)\<close>

definition testGitHubToken :: "env \<Rightarrow> string \<Rightarrow> error + bool" where
  "testGitHubToken e tk =
     (case userEndpoint e tk of
        UserFetchFailed m \<Rightarrow> Inl (FetchFailed m)
      | UserNotOk status remaining \<Rightarrow>
          (if status = 401 then Inl TokenInvalid401
           else if status = 403 then
             (if remaining = Some ''0'' then Inl RateLimited else Inl Forbidden403)
           else Inl (HttpFailure status))
      | UserOk user \<Rightarrow> Inr (user_login user \<noteq> []))"

definition getUserInfo :: "env \<Rightarrow> string \<Rightarrow> error + UserInfo" where
  "getUserInfo e tk =
     (case userEndpoint e tk of
        UserFetchFailed m \<Rightarrow> Inl (FetchFailed m)
      | UserNotOk status remaining \<Rightarrow>
          (if status = 401 then Inl TokenInvalid401
           else if status = 403 then Inl Forbidden403
           else Inl (HttpFailure status))
      | UserOk user \<Rightarrow> Inr user)"

section \<open>Credential exchange (OAuth with PKCE)\<close>

text \<open>
  The code challenge and the authorisation URL only determine what is sent to the
  provider; the provider's answer is \<open>flow e\<close>. Every call starts one interactive flow.
\<close>

definition authenticateWithGitHub ::
  "env \<Rightarrow> string \<Rightarrow> string option \<Rightarrow> world \<Rightarrow> (error + string) \<times> world" where
  "authenticateWithGitHub e clientId clientSecret w =
     (let w1 = w\<lparr>oauthCodeVerifier := Some (newVerifier e)\<rparr>;
          w2 = w1\<lparr>launches := Suc (launches w1)\<rparr>
      in case flow e of
        FlowLastError m \<Rightarrow> (Inl (OAuthLastError m), w2)
      | FlowNoCallback \<Rightarrow> (Inl OAuthCancelled, w2)
      | FlowCallback params \<Rightarrow>
          (let code = map_of params ''code'';
               err = map_of params ''error'';
               errorDescription = map_of params ''error_description''
           in if truthy err then
                (Inl (if err = Some ''access_denied'' then AccessDenied
                      else if truthy errorDescription then OAuthError (the errorDescription)
                      else OAuthError (the err)), w2)
              else if \<not> truthy code then (Inl NoAuthorizationCode, w2)
              else if \<not> truthy (oauthCodeVerifier w2) then (Inl VerifierNotFound, w2)
              else
                (case tokenEndpoint e of
                   TokenFetchFailed m \<Rightarrow> (Inl (FetchFailed m), w2)
                 | TokenNotOk errorText \<Rightarrow> (Inl (TokenExchangeFailed errorText), w2)
                 | TokenJson terr tdesc accessToken \<Rightarrow>
                     (if truthy terr then
                        (Inl (TokenError (if truthy tdesc then the tdesc else the terr)), w2)
                      else if \<not> truthy accessToken then (Inl NoAccessToken, w2)
                      else (Inr (the accessToken), w2\<lparr>oauthCodeVerifier := None\<rparr>)))))"

section \<open>Auth session manager (lib/services/auth)\<close>

definition notifyListeners :: "world \<Rightarrow> world" where
  "notifyListeners w = w\<lparr>notified := notified w @ [auth w]\<rparr>"

definition getAuthState :: "world \<Rightarrow> AuthState" where
  "getAuthState w = auth w"

text \<open>
  Both operations set \<open>isUpdatingToken\<close> first. The timers that clear it again 200 ms
  later, and the 50 ms pauses, run after the state changes below and are left out.
\<close>

definition markUserAsSignedIn :: "string \<Rightarrow> UserInfo \<Rightarrow> bool \<Rightarrow> world \<Rightarrow> world" where
  "markUserAsSignedIn newToken newUserInfo refreshUI w =
     (let w1 = w\<lparr>isUpdatingToken := True\<rparr>;
          w2 = w1\<lparr>auth := \<lparr>isSignedIn = True, login = user_login newUserInfo,
                            userInfo = Some newUserInfo, token = Some newToken\<rparr>\<rparr>;
          (s, w3) = getSettings w2;
          w4 = (if oauthToken s \<noteq> Some newToken
                then saveSettings ((spread s)\<lparr>oauthToken_arg := Some (Some newToken)\<rparr>) w3
                else w3)
      in if refreshUI then notifyListeners w4 else w4)"

definition markUserAsSignedOut :: "world \<Rightarrow> world" where
  "markUserAsSignedOut w =
     notifyListeners
       (w\<lparr>auth := \<lparr>isSignedIn = False, login = [], userInfo = None, token = None\<rparr>\<rparr>)"

definition signOut :: "world \<Rightarrow> world" where
  "signOut w =
     (let w1 = w\<lparr>isUpdatingToken := True\<rparr>;
          (s, w2) = getSettings w1;
          w3 = saveSettings ((spread s)\<lparr>oauthToken_arg := Some None\<rparr>) w2
      in markUserAsSignedOut w3)"

text \<open>
  \<^verbatim>\<open>signOut\<close> is awaited on both paths that find the token not valid: after
  \<^verbatim>\<open>testGitHubToken\<close> returned false, and in the handler after it threw.
\<close>

definition ensureAuthenticated :: "env \<Rightarrow> world \<Rightarrow> (error + unit) \<times> world" where
  "ensureAuthenticated e w =
     (if isSignedIn (auth w) \<and> truthy (token (auth w)) then
        (case testGitHubToken e (the (token (auth w))) of
           Inr isValid \<Rightarrow>
             (if isValid then (Inr (), w) else (Inl AuthRequired, signOut w))
         | Inl thrown \<Rightarrow> (Inl AuthRequired, signOut w))
      else (Inl AuthRequired, w))"

definition signIn :: "env \<Rightarrow> world \<Rightarrow> (error + bool) \<times> world" where
  "signIn e w =
     (let (s, w1) = getSettings w in
      if \<not> truthy (githubClientId s) then (Inl MissingClientId, w1)
      else if \<not> truthy (githubClientSecret s) then (Inl MissingClientSecret, w1)
      else
        (case authenticateWithGitHub e (the (githubClientId s)) (githubClientSecret s) w1 of
           (Inl err, w2) \<Rightarrow> (Inl err, w2)
         | (Inr accessToken, w2) \<Rightarrow>
             (case getUserInfo e accessToken of
                Inl err \<Rightarrow> (Inl err, w2)
              | Inr user \<Rightarrow> (Inr True, markUserAsSignedIn accessToken user True w2))))"

section \<open>JSON values and JSON text\<close>

text \<open>
  \<^verbatim>\<open>JSON.stringify(value, null, 2)\<close> and \<^verbatim>\<open>JSON.parse\<close> belong to the
  language, not to the program; they are written down here from the language
  specification (ECMA-262, the JSON object). Numbers are the integers. A string is quoted
  with the two-character escapes for the quote, the backslash and the five named control
  characters, and \<^verbatim>\<open>\u00xx\<close> in lower-case hexadecimal for the other code units
  below 32. With a gap of two spaces, an array or object that is not empty puts every
  element on a line of its own, indented two more spaces than its parent, and its closing
  bracket on a line indented like the parent; a key is followed by a colon and one space.
\<close>

datatype json =
    JNull
  | JBool bool
  | JNum int
  | JStr string
  | JArr "json list"
  | JObj "(string \<times> json) list"

definition hexDigit :: "nat \<Rightarrow> char" where
  "hexDigit n = (if n < 10 then char_of (48 + n) else char_of (87 + n))"

definition escapeChar :: "char \<Rightarrow> string" where
  "escapeChar c =
     (if c = CHR 0x22 then [CHR 0x5C, CHR 0x22]
      else if c = CHR 0x5C then [CHR 0x5C, CHR 0x5C]
      else if c = CHR 0x08 then [CHR 0x5C, CHR ''b'']
      else if c = CHR 0x0C then [CHR 0x5C, CHR ''f'']
      else if c = CHR 0x0A then [CHR 0x5C, CHR ''n'']
      else if c = CHR 0x0D then [CHR 0x5C, CHR ''r'']
      else if c = CHR 0x09 then [CHR 0x5C, CHR ''t'']
      else if (of_char c :: nat) < 32 then
        [CHR 0x5C, CHR ''u'', CHR ''0'', CHR ''0'',
         hexDigit (of_char c div 16), hexDigit (of_char c mod 16)]
      else [c])"

definition quoteJSONString :: "string \<Rightarrow> string" where
  "quoteJSONString s = CHR 0x22 # concat (map escapeChar s) @ [CHR 0x22]"

definition newline :: "nat \<Rightarrow> string" where
  "newline n = CHR 0x0A # replicate n CHR '' ''"

fun stringifyAt :: "nat \<Rightarrow> json \<Rightarrow> string"
  and stringifyElements :: "nat \<Rightarrow> json list \<Rightarrow> string"
  and stringifyMembers :: "nat \<Rightarrow> (string \<times> json) list \<Rightarrow> string"
where
  "stringifyAt n JNull = ''null''"
| "stringifyAt n (JBool b) = (if b then ''true'' else ''false'')"
| "stringifyAt n (JNum i) = showInt i"
| "stringifyAt n (JStr s) = quoteJSONString s"
| "stringifyAt n (JArr xs) =
     (if xs = [] then ''[]''
      else ''['' @ newline (n + 2) @ stringifyElements (n + 2) xs @ newline n @ '']'')"
| "stringifyAt n (JObj kvs) =
     (if kvs = [] then ''{}''
      else ''{'' @ newline (n + 2) @ stringifyMembers (n + 2) kvs @ newline n @ ''}'')"
| "stringifyElements n [] = []"
| "stringifyElements n (x # xs) =
     stringifyAt n x @ (if xs = [] then [] else '','' @ newline n @ stringifyElements n xs)"
| "stringifyMembers n [] = []"
| "stringifyMembers n (kv # kvs) =
     quoteJSONString (fst kv) @ '': '' @ stringifyAt n (snd kv)
     @ (if kvs = [] then [] else '','' @ newline n @ stringifyMembers n kvs)"

definition JSON_stringify :: "json \<Rightarrow> string" where
  "JSON_stringify j = stringifyAt 0 j"


text \<open>
  The parser follows the JSON grammar: white space is space, tab, line feed and carriage
  return; a number has no leading zero; a string holds no raw control character. Its
  result is \<open>None\<close> where \<^verbatim>\<open>JSON.parse\<close> throws a syntax error, and also for the
  texts the values above cannot hold: a number with a fraction or an exponent, and an
  escape \<^verbatim>\<open>\uxxxx\<close> above 00ff. The recursion on nested arrays and objects is
  bounded by a counter; \<open>JSON_parse\<close> starts it at twice the length of the text plus
  two, since each step down into an array or object uses at most two units for every
  character read. That this is enough for every text that \<open>JSON_stringify\<close> prints
  is proved below (\<open>parse_stringify\<close>, \<open>JSON_parse_stringify\<close>).
\<close>

definition isJsonWs :: "char \<Rightarrow> bool" where
  "isJsonWs c = (c \<in> set [CHR 0x20, CHR 0x09, CHR 0x0A, CHR 0x0D])"

definition skipWs :: "string \<Rightarrow> string" where
  "skipWs s = dropWhile isJsonWs s"

fun stripPrefix :: "string \<Rightarrow> string \<Rightarrow> string option" where
  "stripPrefix [] s = Some s"
| "stripPrefix (p # ps) [] = None"
| "stripPrefix (p # ps) (c # cs) = (if p = c then stripPrefix ps cs else None)"

definition hexValue :: "char \<Rightarrow> nat option" where
  "hexValue c =
     (let n = (of_char c :: nat) in
      if 48 \<le> n \<and> n \<le> 57 then Some (n - 48)
      else if 97 \<le> n \<and> n \<le> 102 then Some (n - 87)
      else if 65 \<le> n \<and> n \<le> 70 then Some (n - 55)
      else None)"

definition unescapeChar :: "char \<Rightarrow> char option" where
  "unescapeChar e =
     (if e = CHR 0x22 then Some (CHR 0x22)
      else if e = CHR 0x5C then Some (CHR 0x5C)
      else if e = CHR ''/'' then Some (CHR ''/'')
      else if e = CHR ''b'' then Some (CHR 0x08)
      else if e = CHR ''f'' then Some (CHR 0x0C)
      else if e = CHR ''n'' then Some (CHR 0x0A)
      else if e = CHR ''r'' then Some (CHR 0x0D)
      else if e = CHR ''t'' then Some (CHR 0x09)
      else None)"

definition unicodeEscape :: "char \<Rightarrow> char \<Rightarrow> char \<Rightarrow> char \<Rightarrow> char option" where
  "unicodeEscape a b c d =
     (case (hexValue a, hexValue b, hexValue c, hexValue d) of
        (Some h1, Some h2, Some h3, Some h4) \<Rightarrow>
          (if h1 = 0 \<and> h2 = 0 then Some (char_of (16 * h3 + h4)) else None)
      | _ \<Rightarrow> None)"

definition consChar :: "char \<Rightarrow> (string \<times> string) option \<Rightarrow> (string \<times> string) option" where
  "consChar c r = map_option (\<lambda>p. (c # fst p, snd p)) r"

fun parseChars :: "string \<Rightarrow> (string \<times> string) option" where
  "parseChars [] = None"
| "parseChars (c # cs) =
     (if c = CHR 0x22 then Some ([], cs)
      else if c = CHR 0x5C then
        (case cs of
           [] \<Rightarrow> None
         | e # es \<Rightarrow>
             (if e = CHR ''u'' then
                (case es of
                   h1 # h2 # h3 # h4 # r \<Rightarrow>
                     (case unicodeEscape h1 h2 h3 h4 of
                        None \<Rightarrow> None
                      | Some ch \<Rightarrow> consChar ch (parseChars r))
                 | _ \<Rightarrow> None)
              else
                (case unescapeChar e of
                   None \<Rightarrow> None
                 | Some ch \<Rightarrow> consChar ch (parseChars es))))
      else if (of_char c :: nat) < 32 then None
      else consChar c (parseChars cs))"

definition isDigit :: "char \<Rightarrow> bool" where
  "isDigit c = (48 \<le> (of_char c :: nat) \<and> (of_char c :: nat) \<le> 57)"

definition digitsValue :: "string \<Rightarrow> nat" where
  "digitsValue ds = foldl (\<lambda>a d. 10 * a + (of_char d - 48)) 0 ds"

definition startsFraction :: "string \<Rightarrow> bool" where
  "startsFraction s =
     (case s of [] \<Rightarrow> False | c # cs \<Rightarrow> c \<in> set [CHR ''.'', CHR ''e'', CHR ''E''])"

definition parseNumber :: "string \<Rightarrow> (int \<times> string) option" where
  "parseNumber s =
     (let neg = (case s of [] \<Rightarrow> False | c # cs \<Rightarrow> c = CHR ''-'');
          s1 = (if neg then tl s else s);
          ds = takeWhile isDigit s1;
          r = dropWhile isDigit s1
      in if ds = [] then None
         else if hd ds = CHR ''0'' \<and> 1 < length ds then None
         else if startsFraction r then None
         else Some (if neg then - int (digitsValue ds) else int (digitsValue ds), r))"

fun parseValue :: "nat \<Rightarrow> string \<Rightarrow> (json \<times> string) option"
  and parseElements :: "nat \<Rightarrow> string \<Rightarrow> (json list \<times> string) option"
  and parseMembers :: "nat \<Rightarrow> string \<Rightarrow> ((string \<times> json) list \<times> string) option"
where
  "parseValue 0 s = None"
| "parseValue (Suc f) s =
     (case skipWs s of
        [] \<Rightarrow> None
      | c # cs \<Rightarrow>
          (if c = CHR ''n'' then map_option (Pair JNull) (stripPrefix ''ull'' cs)
           else if c = CHR ''t'' then map_option (Pair (JBool True)) (stripPrefix ''rue'' cs)
           else if c = CHR ''f'' then map_option (Pair (JBool False)) (stripPrefix ''alse'' cs)
           else if c = CHR 0x22 then map_option (\<lambda>p. (JStr (fst p), snd p)) (parseChars cs)
           else if c = CHR ''['' then
             (case skipWs cs of
                [] \<Rightarrow> None
              | d # ds \<Rightarrow>
                  (if d = CHR '']'' then Some (JArr [], ds)
                   else map_option (\<lambda>p. (JArr (fst p), snd p)) (parseElements f (d # ds))))
           else if c = CHR ''{'' then
             (case skipWs cs of
                [] \<Rightarrow> None
              | d # ds \<Rightarrow>
                  (if d = CHR ''}'' then Some (JObj [], ds)
                   else map_option (\<lambda>p. (JObj (fst p), snd p)) (parseMembers f (d # ds))))
           else map_option (\<lambda>p. (JNum (fst p), snd p)) (parseNumber (c # cs))))"
| "parseElements 0 s = None"
| "parseElements (Suc f) s =
     (case parseValue f s of
        None \<Rightarrow> None
      | Some (v, r) \<Rightarrow>
          (case skipWs r of
             [] \<Rightarrow> None
           | c # cs \<Rightarrow>
               (if c = CHR '','' then
                  map_option (\<lambda>p. (v # fst p, snd p)) (parseElements f cs)
                else if c = CHR '']'' then Some ([v], cs)
                else None)))"
| "parseMembers 0 s = None"
| "parseMembers (Suc f) s =
     (case skipWs s of
        [] \<Rightarrow> None
      | c # cs \<Rightarrow>
          (if c = CHR 0x22 then
             (case parseChars cs of
                None \<Rightarrow> None
              | Some (k, r) \<Rightarrow>
                  (case skipWs r of
                     [] \<Rightarrow> None
                   | d # ds \<Rightarrow>
                       (if d = CHR '':'' then
                          (case parseValue f ds of
                             None \<Rightarrow> None
                           | Some (v, r2) \<Rightarrow>
                               (case skipWs r2 of
                                  [] \<Rightarrow> None
                                | e # es \<Rightarrow>
                                    (if e = CHR '','' then
                                       map_option (\<lambda>p. ((k, v) # fst p, snd p))
                                         (parseMembers f es)
                                     else if e = CHR ''}'' then Some ([(k, v)], es)
                                     else None)))
                        else None)))
           else None))"

definition JSON_parse :: "string \<Rightarrow> json option" where
  "JSON_parse s =
     (case parseValue (2 * length s + 2) s of
        None \<Rightarrow> None
      | Some (j, r) \<Rightarrow> if skipWs r = [] then Some j else None)"

text \<open>
  Two properties of texts for the proofs about the parser: \<open>okRest\<close> holds of what
  may follow a printed value (nothing, a comma, a line feed, a closing bracket, a space)
  and \<open>opens\<close> of a text whose first character is neither white space nor a closing
  bracket.
\<close>

definition okRest :: "string \<Rightarrow> bool" where
  "okRest r = (case r of [] \<Rightarrow> True | c # cs \<Rightarrow> c \<in> set [CHR '','', CHR 0x0A, CHR '']'', CHR ''}'', CHR '' ''])"

definition opens :: "string \<Rightarrow> bool" where
  "opens s = (case s of [] \<Rightarrow> False
     | c # t \<Rightarrow> \<not> isJsonWs c \<and> c \<noteq> CHR '']'' \<and> c \<noteq> CHR ''}'')"

section \<open>The stored document as a JSON value\<close>

text \<open>
  What \<^verbatim>\<open>JSON.stringify\<close> sees of a document: one object per interface, with the
  keys in the order of the declarations (the order has no influence on what
  \<^verbatim>\<open>JSON.parse\<close> returns). An optional key without a value is left out; a key that
  holds \<^verbatim>\<open>undefined\<close> and an absent key are the same \<open>None\<close> in the records, no
  code of the program tells them apart, and \<^verbatim>\<open>JSON.stringify\<close> leaves out both.
\<close>

definition optionalKey :: "string \<Rightarrow> string option \<Rightarrow> (string \<times> json) list" where
  "optionalKey k v = (case v of None \<Rightarrow> [] | Some s \<Rightarrow> [(k, JStr s)])"

definition tabJson :: "Tab \<Rightarrow> json" where
  "tabJson t =
     JObj ([(''id'', JStr (tab_id t)), (''title'', JStr (title t)), (''url'', JStr (url t))]
           @ optionalKey ''favIconUrl'' (favIconUrl t)
           @ [(''createdAt'', JNum (tab_createdAt t))])"

definition groupJson :: "Group \<Rightarrow> json" where
  "groupJson g =
     JObj ([(''id'', JStr (group_id g)), (''name'', JStr (name g))]
           @ optionalKey ''description'' (description g)
           @ [(''tabs'', JArr (map tabJson (tabs g))),
              (''createdAt'', JNum (createdAt g)), (''updatedAt'', JNum (updatedAt g))])"

definition settingsJson :: "Settings \<Rightarrow> json" where
  "settingsJson s =
     JObj ([(''closeAndSave'', JBool (closeAndSave s))]
           @ optionalKey ''oauthToken'' (oauthToken s)
           @ optionalKey ''gistId'' (gistId s)
           @ optionalKey ''githubClientId'' (githubClientId s)
           @ optionalKey ''githubClientSecret'' (githubClientSecret s))"

definition storageJson :: "StorageData \<Rightarrow> json" where
  "storageJson d =
     JObj [(''groups'', JArr (map groupJson (groups d))),
           (''settings'', settingsJson (settings d))]"

text \<open>
  Reading a property of a parsed value: \<open>None\<close> is \<^verbatim>\<open>undefined\<close>. Where a text
  repeats a key, \<^verbatim>\<open>JSON.parse\<close> keeps the last value.
\<close>

definition getProp :: "json \<Rightarrow> string \<Rightarrow> json option" where
  "getProp j k = (case j of JObj kvs \<Rightarrow> map_of (rev kvs) k | _ \<Rightarrow> None)"

fun truthyJson :: "json option \<Rightarrow> bool" where
  "truthyJson None = False"
| "truthyJson (Some JNull) = False"
| "truthyJson (Some (JBool b)) = b"
| "truthyJson (Some (JNum i)) = (i \<noteq> 0)"
| "truthyJson (Some (JStr s)) = (s \<noteq> [])"
| "truthyJson (Some (JArr xs)) = True"
| "truthyJson (Some (JObj kvs)) = True"

text \<open>
  The parsed value is used at the type \<^verbatim>\<open>StorageData\<close> without a check of its
  shape. The functions below read a value at the declared types; they give \<open>None\<close> for
  a value that is not of the declared shape (a key of another type, a missing required
  key, a key the interface does not declare), which the records cannot hold.
\<close>

definition asString :: "json option \<Rightarrow> string option" where
  "asString v = (case v of Some (JStr s) \<Rightarrow> Some s | _ \<Rightarrow> None)"

definition asOptionalString :: "json option \<Rightarrow> string option option" where
  "asOptionalString v =
     (case v of None \<Rightarrow> Some None | Some (JStr s) \<Rightarrow> Some (Some s) | _ \<Rightarrow> None)"

definition asNumber :: "json option \<Rightarrow> int option" where
  "asNumber v = (case v of Some (JNum i) \<Rightarrow> Some i | _ \<Rightarrow> None)"

definition asBoolean :: "json option \<Rightarrow> bool option" where
  "asBoolean v = (case v of Some (JBool b) \<Rightarrow> Some b | _ \<Rightarrow> None)"

definition asArray :: "json option \<Rightarrow> json list option" where
  "asArray v = (case v of Some (JArr xs) \<Rightarrow> Some xs | _ \<Rightarrow> None)"

definition onlyKeys :: "string list \<Rightarrow> json \<Rightarrow> bool" where
  "onlyKeys ks j = (case j of JObj kvs \<Rightarrow> list_all (\<lambda>kv. fst kv \<in> set ks) kvs | _ \<Rightarrow> False)"

definition fromTabJson :: "json \<Rightarrow> Tab option" where
  "fromTabJson j =
     (if onlyKeys [''id'', ''title'', ''url'', ''favIconUrl'', ''createdAt''] j then
        (case (asString (getProp j ''id''), asString (getProp j ''title''),
               asString (getProp j ''url''), asOptionalString (getProp j ''favIconUrl''),
               asNumber (getProp j ''createdAt'')) of
           (Some i, Some t, Some u, Some f, Some c) \<Rightarrow>
             Some \<lparr>tab_id = i, title = t, url = u, favIconUrl = f, tab_createdAt = c\<rparr>
         | _ \<Rightarrow> None)
      else None)"

definition fromGroupJson :: "json \<Rightarrow> Group option" where
  "fromGroupJson j =
     (if onlyKeys [''id'', ''name'', ''description'', ''tabs'', ''createdAt'', ''updatedAt''] j
      then
        (case (asString (getProp j ''id''), asString (getProp j ''name''),
               asOptionalString (getProp j ''description''),
               Option.bind (asArray (getProp j ''tabs'')) (\<lambda>xs. those (map fromTabJson xs)),
               asNumber (getProp j ''createdAt''), asNumber (getProp j ''updatedAt'')) of
           (Some i, Some n, Some d, Some ts, Some c, Some u) \<Rightarrow>
             Some \<lparr>group_id = i, name = n, description = d, tabs = ts,
                   createdAt = c, updatedAt = u\<rparr>
         | _ \<Rightarrow> None)
      else None)"

definition fromSettingsJson :: "json \<Rightarrow> Settings option" where
  "fromSettingsJson j =
     (if onlyKeys [''closeAndSave'', ''oauthToken'', ''gistId'', ''githubClientId'',
                   ''githubClientSecret''] j
      then
        (case (asBoolean (getProp j ''closeAndSave''),
               asOptionalString (getProp j ''oauthToken''),
               asOptionalString (getProp j ''gistId''),
               asOptionalString (getProp j ''githubClientId''),
               asOptionalString (getProp j ''githubClientSecret'')) of
           (Some c, Some t, Some g, Some ci, Some cs) \<Rightarrow>
             Some \<lparr>closeAndSave = c, oauthToken = t, gistId = g,
                   githubClientId = ci, githubClientSecret = cs\<rparr>
         | _ \<Rightarrow> None)
      else None)"

definition fromStorageJson :: "json \<Rightarrow> StorageData option" where
  "fromStorageJson j =
     (if onlyKeys [''groups'', ''settings''] j then
        (case (Option.bind (asArray (getProp j ''groups'')) (\<lambda>xs. those (map fromGroupJson xs)),
               Option.bind (getProp j ''settings'') fromSettingsJson) of
           (Some gs, Some s) \<Rightarrow> Some \<lparr>groups = gs, settings = s\<rparr>
         | _ \<Rightarrow> None)
      else None)"

section \<open>The remote document service, as an input\<close>

text \<open>
  What the service answers is not code of the program. \<open>cloud\<close> is the state of the
  service: for each gist id the files of the gist with their contents, in the order in
  which \<^verbatim>\<open>Object.keys(gist.files)\<close> lists them. A \<open>service\<close> gives the answer to each of
  the three requests the program sends, and the state after it. An answer is a rejected
  \<^verbatim>\<open>fetch\<close> (with the message of the error; an unreadable body counts as such), a
  response that is not ok, or the ok response.
\<close>

record failure =
  status :: nat
  statusText :: string
  bodyMessage :: "string option"
  bodyDetails :: string
  scopesHeader :: "string option"
  acceptedHeader :: "string option"
  requiredHeader :: "string option"

text \<open>
  \<open>bodyMessage\<close> is the property \<^verbatim>\<open>message\<close> of the body when the body is JSON,
  \<open>bodyDetails\<close> the body printed by \<^verbatim>\<open>JSON.stringify(error, null, 2)\<close> (empty when
  the body is not JSON); the three headers are \<^verbatim>\<open>X-OAuth-Scopes\<close>,
  \<^verbatim>\<open>X-Accepted-GitHub-Permissions\<close> and \<^verbatim>\<open>X-Required-GitHub-Permissions\<close>.
\<close>

datatype get_answer =
    GetRejected string
  | GetNotOk failure
  | GetOk "(string \<times> string) list"

datatype write_answer =
    WriteRejected string
  | WriteNotOk failure
  | WriteOk

datatype post_answer =
    PostRejected string
  | PostNotOk failure
  | PostOk string

type_synonym cloud = "(string \<times> (string \<times> string) list) list"

record service =
  getGist :: "cloud \<Rightarrow> string \<Rightarrow> string \<Rightarrow> get_answer"
  patchGist :: "cloud \<Rightarrow> string \<Rightarrow> string \<Rightarrow> string \<Rightarrow> string \<Rightarrow> write_answer \<times> cloud"
  postGist :: "cloud \<Rightarrow> string \<Rightarrow> string \<Rightarrow> string \<Rightarrow> post_answer \<times> cloud"

text \<open>
  Modelled from the spec: the remote API of section 6, for a service that accepts every
  token. \<^verbatim>\<open>GET /gists/{id}\<close> answers 404 for an unknown id and the files otherwise;
  \<^verbatim>\<open>PATCH /gists/{id}\<close> replaces the content of the named file, or adds the file after
  the others when the gist has no file of that name; \<^verbatim>\<open>POST /gists\<close> creates a gist
  with the one file under the id \<open>newId\<close>.
\<close>

definition notFound :: failure where
  "notFound = \<lparr>status = 404, statusText = ''Not Found'', bodyMessage = Some ''Not Found'',
               bodyDetails = [], scopesHeader = None, acceptedHeader = None,
               requiredHeader = None\<rparr>"

fun putKey :: "string \<Rightarrow> 'a \<Rightarrow> (string \<times> 'a) list \<Rightarrow> (string \<times> 'a) list" where
  "putKey k v [] = [(k, v)]"
| "putKey k v (kv # kvs) = (if fst kv = k then (k, v) # kvs else kv # putKey k v kvs)"

definition gistService :: "string \<Rightarrow> service" where
  "gistService newId =
     \<lparr>getGist = (\<lambda>c tk gid. case map_of c gid of
                    None \<Rightarrow> GetNotOk notFound
                  | Some files \<Rightarrow> GetOk files),
      patchGist = (\<lambda>c tk gid filename content. case map_of c gid of
                    None \<Rightarrow> (WriteNotOk notFound, c)
                  | Some files \<Rightarrow> (WriteOk, putKey gid (putKey filename content files) c)),
      postGist = (\<lambda>c tk filename content.
                    (PostOk newId, putKey newId [(filename, content)] c))\<rparr>"

section \<open>Remote sync client (lib/services/github)\<close>

definition GIST_FILENAME :: string where
  "GIST_FILENAME = ''the-one-tab-data.json''"

text \<open>\<^verbatim>\<open>String.prototype.includes\<close>.\<close>

fun stringIncludes :: "string \<Rightarrow> string \<Rightarrow> bool" where
  "stringIncludes s p =
     (case stripPrefix p s of
        Some r \<Rightarrow> True
      | None \<Rightarrow> (case s of [] \<Rightarrow> False | c # cs \<Rightarrow> stringIncludes cs p))"

declare stringIncludes.simps [simp del]

text \<open>
  The errors of \<^verbatim>\<open>createGist\<close>, \<^verbatim>\<open>updateGist\<close> and \<^verbatim>\<open>syncToGist\<close>, one
  constructor per \<^verbatim>\<open>throw\<close>, with what the message interpolates. \<^verbatim>\<open>syncToGist\<close>
  decides on the text of the message it catches, so \<open>message\<close> gives the text, with a
  question mark for every letter outside ASCII.
\<close>

datatype push_error =
    PushRejected string
  | CreateUnauthorized string
  | CreateForbidden string
  | CreateFailed nat string string
  | GistNotFound string
  | UpdateDenied string nat "string option" "string option" string
  | UpdateFailed nat string string
  | SyncDenied string

definition detailsLine :: "string \<Rightarrow> string" where
  "detailsLine errorDetails = (if errorDetails \<noteq> [] then ''Chi ti?t: '' @ errorDetails else [])"

definition headerLine :: "string \<Rightarrow> string option \<Rightarrow> string" where
  "headerLine label v = (if truthy v then label @ the v @ [CHR 0x0A] else [])"

definition createUnauthorizedHead :: string where
  "createUnauthorizedHead =
     ''Token kh?ng h?p l? ho?c ?? h?t h?n (401).'' @ [CHR 0x0A] @ ''Chi ti?t: ''"

definition createUnauthorizedTail :: string where
  "createUnauthorizedTail =
     [CHR 0x0A] @ ''Vui l?ng ki?m tra l?i token ho?c t?o token m?i.''"

definition createForbiddenHead :: string where
  "createForbiddenHead =
     ''Token kh?ng c? quy?n t?o Gist (403).'' @ [CHR 0x0A] @ ''Chi ti?t: ''"

definition createForbiddenTail :: string where
  "createForbiddenTail =
     [CHR 0x0A] @ ''Vui l?ng ??m b?o token c? quy?n '' @ [CHR 0x22] @ ''gist'' @
     [CHR 0x22] @ '' (Read and Write).''"

definition gistNotFoundHead :: string where
  "gistNotFoundHead =
     ''Gist kh?ng t?n t?i (404). Vui l?ng ki?m tra l?i Gist ID: ''"

definition updateDeniedTail :: string where
  "updateDeniedTail =
     ''?i?u n?y c? th? do:'' @ [CHR 0x0A] @
     ''1. Token ch? c? quy?n create nh?ng kh?ng c? quy?n update'' @ [CHR 0x0A] @
     ''2. Classic token thi?u scope '' @ [CHR 0x22] @ ''gist'' @ [CHR 0x22] @
     '' (c?n c? read v? write)'' @ [CHR 0x0A] @
     ''3. Fine-grained token thi?u quy?n update Gist'' @ [CHR 0x0A] @
     ''4. Organization policy block access'' @ [CHR 0x0A, CHR 0x0A] @ ''Gi?i ph?p:'' @
     [CHR 0x0A] @ ''- OAuth: ??ng xu?t r?i ??ng nh?p l?i (b?m Authorize tr?n GitHub)'' @
     [CHR 0x0A] @ ''- ??m b?o OAuth App c? scope '' @ [CHR 0x22] @ ''gist'' @ [CHR 0x22] @
     '' (read & write)'' @ [CHR 0x0A] @
     ''- Ki?m tra organization policy n?u b?n thu?c organization''"

definition syncDeniedHead :: string where
  "syncDeniedHead =
     ''Token kh?ng th? sync Gist.'' @ [CHR 0x0A] @ ''Chi ti?t: ''"

definition syncDeniedTail :: string where
  "syncDeniedTail =
     [CHR 0x0A, CHR 0x0A] @ ''?i?u n?y c? th? do:'' @ [CHR 0x0A] @
     ''1. Fine-grained token thi?u quy?n truy c?p Gist c? th?'' @ [CHR 0x0A] @
     ''2. Organization policy block access'' @ [CHR 0x0A] @ ''3. Token kh?ng c? quy?n '' @
     [CHR 0x22] @ ''gist'' @ [CHR 0x22] @ '' (Read and Write)'' @ [CHR 0x0A, CHR 0x0A] @
     ''Gi?i ph?p:'' @ [CHR 0x0A] @ ''- Ki?m tra token c? quy?n '' @ [CHR 0x22] @ ''gist'' @
     [CHR 0x22] @ '' (Read and Write) kh?ng'' @ [CHR 0x0A] @
     ''- Th? t?o Classic token v?i scope '' @ [CHR 0x22] @ ''gist'' @
     [CHR 0x22, CHR 0x0A] @ ''- Ki?m tra organization policy n?u b?n thu?c organization''"

primrec message :: "push_error \<Rightarrow> string" where
  "message (PushRejected m) = m"
| "message (CreateUnauthorized errorMessage) =
     createUnauthorizedHead @ errorMessage @ createUnauthorizedTail"
| "message (CreateForbidden errorMessage) =
     createForbiddenHead @ errorMessage @ createForbiddenTail"
| "message (CreateFailed st errorMessage errorDetails) =
     ''Failed to create Gist (HTTP '' @ digits st @ ''): '' @ errorMessage @ [CHR 0x0A] @
     detailsLine errorDetails"
| "message (GistNotFound gid) = gistNotFoundHead @ gid"
| "message (UpdateDenied gid st accepted required errorMessage) =
     ''Token kh?ng th? update Gist '' @ gid @ '' ('' @ digits st @ '').'' @ [CHR 0x0A] @
     headerLine ''Permissions ???c ch?p nh?n: '' accepted @
     headerLine ''Permissions y?u c?u: '' required @
     ''Chi ti?t: '' @ errorMessage @ [CHR 0x0A, CHR 0x0A] @ updateDeniedTail"
| "message (UpdateFailed st errorMessage errorDetails) =
     ''Failed to update Gist (HTTP '' @ digits st @ ''): '' @ errorMessage @ [CHR 0x0A] @
     detailsLine errorDetails"
| "message (SyncDenied errorMsg) = syncDeniedHead @ errorMsg @ syncDeniedTail"

text \<open>
  The errors of \<^verbatim>\<open>syncFromGist\<close>. \<open>JsonParseFailed\<close> is the error thrown by
  \<^verbatim>\<open>JSON.parse\<close> (and stands for the texts outside the JSON values above),
  \<open>NullDocument\<close> the type error of reading a property of \<^verbatim>\<open>null\<close>, and
  \<open>NotStorageData\<close> marks a document that passes the check of the code but is not of
  the declared shape.
\<close>

datatype pull_error =
    PullRejected string
  | ReadDenied "string option" "string option"
  | ReadNotFound
  | ReadFailed string
  | GistFileNotFound
  | JsonParseFailed
  | NullDocument
  | InvalidDataFormat
  | NotStorageData

definition createErrorMessage :: "string \<Rightarrow> failure \<Rightarrow> string" where
  "createErrorMessage what h =
     (if truthy (bodyMessage h) then the (bodyMessage h) else what @ statusText h)"

text \<open>
  After the gist is created the code asks \<^verbatim>\<open>GET /user\<close> once more and only logs the
  answer; that request is left out.
\<close>

definition createGist :: "service \<Rightarrow> string \<Rightarrow> world \<times> cloud \<Rightarrow> (push_error + string) \<times> (world \<times> cloud)" where
  "createGist svc tk wc =
     (let (data, w1) = getStorageData (fst wc);
          content = JSON_stringify (storageJson data)
      in case postGist svc (snd wc) tk GIST_FILENAME content of
           (PostRejected m, c1) \<Rightarrow> (Inl (PushRejected m), (w1, c1))
         | (PostNotOk h, c1) \<Rightarrow>
             (let errorMessage = createErrorMessage ''Failed to create Gist: '' h in
              (Inl (if status h = 401 then CreateUnauthorized errorMessage
                    else if status h = 403 then CreateForbidden errorMessage
                    else CreateFailed (status h) errorMessage (bodyDetails h)), (w1, c1)))
         | (PostOk newGistId, c1) \<Rightarrow> (Inr newGistId, (w1, c1)))"

text \<open>
  The file that \<^verbatim>\<open>updateGist\<close> writes: the first key of the files of the gist, or
  the default name when there is none (or the key is empty).
\<close>

definition targetFileName :: "string list \<Rightarrow> string" where
  "targetFileName keys =
     (case keys of [] \<Rightarrow> GIST_FILENAME | k # ks \<Rightarrow> if k \<noteq> [] then k else GIST_FILENAME)"

text \<open>
  The first request only looks for the file name. A 404 answer throws inside the
  \<^verbatim>\<open>try\<close>; the handler throws again every error whose message includes "404" and
  goes on with the default name after any other.
\<close>

definition updateGist ::
  "service \<Rightarrow> string \<Rightarrow> string \<Rightarrow> StorageData \<Rightarrow> cloud \<Rightarrow> (push_error + unit) \<times> cloud" where
  "updateGist svc tk gid data c =
     (let content = JSON_stringify (storageJson data);
          found = (case getGist svc c tk gid of
                     GetOk files \<Rightarrow> Inr (targetFileName (map fst files))
                   | GetNotOk h \<Rightarrow>
                       if status h = 404 then Inl (GistNotFound gid) else Inr GIST_FILENAME
                   | GetRejected m \<Rightarrow>
                       if stringIncludes m ''404'' then Inl (PushRejected m) else Inr GIST_FILENAME)
      in case found of
           Inl e \<Rightarrow> (Inl e, c)
         | Inr filename \<Rightarrow>
             (case patchGist svc c tk gid filename content of
                (WriteRejected m, c1) \<Rightarrow> (Inl (PushRejected m), c1)
              | (WriteNotOk h, c1) \<Rightarrow>
                  (let errorMessage = createErrorMessage ''Failed to update Gist: '' h in
                   (Inl (if status h = 401 \<or> status h = 403 then
                           UpdateDenied gid (status h) (acceptedHeader h) (requiredHeader h)
                             errorMessage
                         else if status h = 404 then GistNotFound gid
                         else UpdateFailed (status h) errorMessage (bodyDetails h)), c1))
              | (WriteOk, c1) \<Rightarrow> (Inr (), c1)))"

text \<open>
  The handler of \<^verbatim>\<open>syncToGist\<close>: a message that names permissions or is longer than
  200 is thrown again, a shorter one that names 401 or 403 is wrapped, any other is
  thrown again.
\<close>

definition rethrown :: "push_error \<Rightarrow> push_error" where
  "rethrown e =
     (let errorMsg = message e in
      if stringIncludes errorMsg ''Permissions'' \<or> stringIncludes errorMsg ''permissions''
         \<or> 200 < length errorMsg then e
      else if stringIncludes errorMsg ''401'' \<or> stringIncludes errorMsg ''403'' then SyncDenied errorMsg
      else e)"

definition syncToGist ::
  "service \<Rightarrow> string \<Rightarrow> string option \<Rightarrow> world \<times> cloud \<Rightarrow> (push_error + unit) \<times> (world \<times> cloud)" where
  "syncToGist svc tk gid wc =
     (let (data, w1) = getStorageData (fst wc);
          attempt =
            (if truthy gid then
               (case updateGist svc tk (the gid) data (snd wc) of
                  (r, c1) \<Rightarrow> (r, (w1, c1)))
             else
               (case createGist svc tk (w1, snd wc) of
                  (Inl e, wc1) \<Rightarrow> (Inl e, wc1)
                | (Inr newGistId, wc1) \<Rightarrow>
                    (let (currentSettings, w2) = getSettings (fst wc1);
                         w3 = saveSettings
                                ((spread currentSettings)\<lparr>gistId_arg := Some (Some newGistId)\<rparr>) w2
                     in (Inr (), (w3, snd wc1)))))
      in case attempt of
           (Inl e, wc2) \<Rightarrow> (Inl (rethrown e), wc2)
         | (Inr u, wc2) \<Rightarrow> (Inr (), wc2))"

text \<open>
  The file that \<^verbatim>\<open>syncFromGist\<close> reads: the first key that includes "the-one-tab",
  or else the first key.
\<close>

definition dataFileName :: "string list \<Rightarrow> string option" where
  "dataFileName keys =
     (case List.find (\<lambda>k. stringIncludes k ''the-one-tab'') keys of
        Some found \<Rightarrow> Some found
      | None \<Rightarrow> (case keys of [] \<Rightarrow> None | k # ks \<Rightarrow> Some k))"

definition syncFromGist ::
  "service \<Rightarrow> string \<Rightarrow> string \<Rightarrow> world \<times> cloud \<Rightarrow> (pull_error + StorageData) \<times> (world \<times> cloud)" where
  "syncFromGist svc tk gid wc =
     (case getGist svc (snd wc) tk gid of
        GetRejected m \<Rightarrow> (Inl (PullRejected m), wc)
      | GetNotOk h \<Rightarrow>
          (Inl (if status h = 401 \<or> status h = 403 then
                  ReadDenied (scopesHeader h) (acceptedHeader h)
                else if status h = 404 then ReadNotFound
                else ReadFailed (if truthy (bodyMessage h) then the (bodyMessage h)
                                 else statusText h)), wc)
      | GetOk files \<Rightarrow>
          (let filename = dataFileName (map fst files) in
           if \<not> truthy filename then (Inl GistFileNotFound, wc)
           else
             (case map_of files (the filename) of
                None \<Rightarrow> (Inl GistFileNotFound, wc)
              | Some content \<Rightarrow>
                  (case JSON_parse content of
                     None \<Rightarrow> (Inl JsonParseFailed, wc)
                   | Some j \<Rightarrow>
                       (if j = JNull then (Inl NullDocument, wc)
                        else if \<not> truthyJson (getProp j ''groups'') then
                          (Inl InvalidDataFormat, wc)
                        else if \<not> truthyJson (getProp j ''settings'') then
                          (Inl InvalidDataFormat, wc)
                        else
                          (case fromStorageJson j of
                             None \<Rightarrow> (Inl NotStorageData, wc)
                           | Some data \<Rightarrow>
                               (Inr data, (saveStorageData data (fst wc), snd wc))))))))"

section \<open>Example data\<close>

definition tabA :: Tab where
  "tabA = \<lparr>tab_id = ''a'', title = ''Alpha'', url = ''https://a.example/'',
           favIconUrl = None, tab_createdAt = 1\<rparr>"

definition tabB :: Tab where
  "tabB = \<lparr>tab_id = ''b'', title = ''Beta'', url = ''https://b.example/'',
           favIconUrl = None, tab_createdAt = 2\<rparr>"

definition tabA2 :: Tab where
  "tabA2 = \<lparr>tab_id = ''c'', title = ''Alpha again'', url = ''https://a.example/'',
            favIconUrl = None, tab_createdAt = 3\<rparr>"

definition defaultGroup :: Group where
  "defaultGroup = \<lparr>group_id = ''default'', name = ''Default'', description = None,
                   tabs = [], createdAt = 0, updatedAt = 0\<rparr>"

definition workGroup :: Group where
  "workGroup = \<lparr>group_id = ''g1'', name = ''Work'', description = None,
                tabs = [tabA, tabB], createdAt = 5, updatedAt = 5\<rparr>"

definition someSettings :: Settings where
  "someSettings = \<lparr>closeAndSave = False, oauthToken = Some ''tok'', gistId = None,
                   githubClientId = Some ''cid'', githubClientSecret = Some ''sec''\<rparr>"

definition signedOut :: AuthState where
  "signedOut = \<lparr>isSignedIn = False, login = [], userInfo = None, token = None\<rparr>"

definition someUser :: UserInfo where
  "someUser = \<lparr>user_login = ''ann'', user_id = 7, avatar_url = [], html_url = []\<rparr>"

definition signedInAnn :: AuthState where
  "signedInAnn = \<lparr>isSignedIn = True, login = ''ann'', userInfo = Some someUser,
                  token = Some ''tok''\<rparr>"

definition someWorld :: world where
  "someWorld = \<lparr>store = Some \<lparr>groups = [defaultGroup, workGroup], settings = someSettings\<rparr>,
                oauthCodeVerifier = None, clock = (\<lambda>n. 1000 + int n), reads = 0,
                auth = signedOut, isUpdatingToken = False, notified = [], launches = 0\<rparr>"

definition signedInWorld :: world where
  "signedInWorld = someWorld\<lparr>auth := signedInAnn\<rparr>"

definition createdWork :: Group where
  "createdWork = \<lparr>group_id = ''group_1002_x7'', name = ''Work'', description = None,
                  tabs = [], createdAt = 1001, updatedAt = 1001\<rparr>"

definition freshWorld :: world where
  "freshWorld = \<lparr>store = None, oauthCodeVerifier = None, clock = (\<lambda>n. 1000 + int n),
                 reads = 0, auth = signedOut, isUpdatingToken = False, notified = [],
                 launches = 0\<rparr>"

definition deniedEnv :: env where
  "deniedEnv = \<lparr>newVerifier = ''v'',
                flow = FlowCallback [(''error'', ''access_denied''), (''state'', ''s'')],
                tokenEndpoint = TokenNotOk [],
                userEndpoint = (\<lambda>tk. UserNotOk 401 None)\<rparr>"

definition goodEnv :: env where
  "goodEnv = \<lparr>newVerifier = ''v'',
              flow = FlowCallback [(''code'', ''c1''), (''state'', ''s'')],
              tokenEndpoint = TokenJson None None (Some ''tok''),
              userEndpoint = (\<lambda>tk. if tk = ''tok'' then UserOk someUser else UserNotOk 401 None)\<rparr>"

definition plainSettings :: Settings where
  "plainSettings = \<lparr>closeAndSave = False, oauthToken = None, gistId = None,
                    githubClientId = None, githubClientSecret = None\<rparr>"

definition oldDocument :: StorageData where
  "oldDocument = \<lparr>groups = [defaultGroup], settings = plainSettings\<rparr>"

definition currentDocument :: StorageData where
  "currentDocument = \<lparr>groups = [defaultGroup, workGroup], settings = someSettings\<rparr>"

definition twoFileCloud :: cloud where
  "twoFileCloud =
     [(''gist1'', [(''notes.txt'', ''hello''),
                   (''the-one-tab-data.json'', JSON_stringify (storageJson oldDocument))])]"

definition twoFileCloudAfter :: cloud where
  "twoFileCloudAfter =
     [(''gist1'', [(''notes.txt'', JSON_stringify (storageJson currentDocument)),
                   (''the-one-tab-data.json'', JSON_stringify (storageJson oldDocument))])]"

section \<open>Basic facts about the store\<close>

lemmas example_defs =
  tabA_def tabB_def tabA2_def defaultGroup_def workGroup_def someSettings_def signedOut_def
  someUser_def signedInAnn_def someWorld_def freshWorld_def deniedEnv_def goodEnv_def
  signedInWorld_def createdWork_def plainSettings_def oldDocument_def currentDocument_def
  twoFileCloud_def twoFileCloudAfter_def

lemmas store_defs =
  getStorageData_def createDefaultGroup_def Date_now_def saveStorageData_def getSettings_def
  split_def Let_def

lemma getStorageData_saved [simp]:
  "getStorageData (saveStorageData d w) = (d, saveStorageData d w)"
  by (simp add: getStorageData_def saveStorageData_def)

lemma store_saveStorageData [simp]: "store (saveStorageData d w) = Some d"
  by (simp add: saveStorageData_def)

lemma getStorageData_store: "store (snd (getStorageData w)) = store w"
  by (simp add: getStorageData_def createDefaultGroup_def Date_now_def split: option.splits)

lemma getGroups_fst: "fst (getGroups w) = groups (fst (getStorageData w))"
  by (simp add: getGroups_def split_def Let_def)

lemma getSettings_fst: "fst (getSettings w) = settings (fst (getStorageData w))"
  by (simp add: getSettings_def split_def Let_def)

text \<open>
  Reading an absent store twice gives two default groups with different time stamps, but
  the same settings.
\<close>

lemma getStorageData_reread:
  "settings (fst (getStorageData (snd (getStorageData w)))) = settings (fst (getStorageData w))"
  by (simp add: getStorageData_def createDefaultGroup_def Date_now_def split: option.splits)

lemma find_modify_first:
  "List.find P xs = Some x \<Longrightarrow> P (f x) \<Longrightarrow> List.find P (modify_first P f xs) = Some (f x)"
  by (induction xs) (auto split: if_splits)

lemma find_not_None: "x \<in> set xs \<Longrightarrow> P x \<Longrightarrow> List.find P xs \<noteq> None"
  by (auto simp: find_None_iff)

section \<open>Deleting groups\<close>

text \<open>
  C5. \<^verbatim>\<open>deleteGroup("default")\<close> always fails, with the error "Cannot delete default
  group" (the validation error of the specification), and leaves the stored document as
  it was. No other id is protected: for every other id the call succeeds and stores the
  groups without those of that id.
\<close>

theorem deleteGroup_protects_only_default:
  "fst (deleteGroup ''default'' w) = Inl CannotDeleteDefault
   \<and> store (snd (deleteGroup ''default'' w)) = store w
   \<and> (groupId \<noteq> ''default'' \<longrightarrow>
        fst (deleteGroup groupId w) = Inr ()
        \<and> map_option groups (store (snd (deleteGroup groupId w)))
            = Some (filter (\<lambda>g. group_id g \<noteq> groupId) (fst (getGroups w))))"
  using getStorageData_store[of w]
  by (simp add: deleteGroup_def getGroups_def split_def Let_def)

theorem deleteGroup_protects_only_default_witness:
  "''g1'' \<noteq> ''default''
   \<and> fst (deleteGroup ''default'' someWorld) = Inl CannotDeleteDefault
   \<and> store (snd (deleteGroup ''default'' someWorld)) = store someWorld
   \<and> fst (deleteGroup ''g1'' someWorld) = Inr ()
   \<and> map_option groups (store (snd (deleteGroup ''g1'' someWorld))) = Some [defaultGroup]"
  using deleteGroup_protects_only_default[of someWorld "''g1''"]
  by (simp add: getGroups_def getStorageData_def example_defs)

text \<open>
  C10. For an id other than "default" that no group has, \<^verbatim>\<open>deleteGroup\<close> succeeds
  (no error at all, in particular none about a missing group) and the group list read
  afterwards is the one read before; a document that was stored stays the same document.
\<close>

theorem deleteGroup_unknown_id:
  assumes "groupId \<noteq> ''default''"
    and "groupId \<notin> set (map group_id (fst (getGroups w)))"
  shows "fst (deleteGroup groupId w) = Inr ()
    \<and> fst (getGroups (snd (deleteGroup groupId w))) = fst (getGroups w)
    \<and> (store w \<noteq> None \<longrightarrow> store (snd (deleteGroup groupId w)) = store w)"
proof -
  have "filter (\<lambda>g. group_id g \<noteq> groupId) (fst (getGroups w)) = fst (getGroups w)"
    using assms(2) by (auto simp: filter_id_conv)
  then show ?thesis using assms(1)
    by (auto simp add: deleteGroup_def getGroups_def split_def Let_def getStorageData_def)
qed

theorem deleteGroup_unknown_id_witness:
  "''g9'' \<noteq> ''default''
   \<and> ''g9'' \<notin> set (map group_id (fst (getGroups someWorld)))
   \<and> store someWorld \<noteq> None
   \<and> fst (deleteGroup ''g9'' someWorld) = Inr ()
   \<and> fst (getGroups (snd (deleteGroup ''g9'' someWorld))) = [defaultGroup, workGroup]
   \<and> store (snd (deleteGroup ''g9'' someWorld)) = store someWorld"
  using deleteGroup_unknown_id[of "''g9''" someWorld]
  by (simp add: getGroups_def getStorageData_def example_defs)

section \<open>The settings are outside the reach of the group mutators\<close>

lemmas settings_frame_simps =
  getSettings_fst getStorageData_reread split_def Let_def

lemma settings_saveGroup:
  "fst (getSettings (snd (saveGroup g w))) = fst (getSettings w)"
  by (simp add: saveGroup_def settings_frame_simps)

lemma settings_deleteGroup:
  "fst (getSettings (snd (deleteGroup i w))) = fst (getSettings w)"
  by (simp add: deleteGroup_def settings_frame_simps)

lemma settings_addTabsToGroup:
  "fst (getSettings (snd (addTabsToGroup i ts w))) = fst (getSettings w)"
  by (simp add: addTabsToGroup_def settings_frame_simps split: option.splits)

lemma settings_removeTabFromGroup:
  "fst (getSettings (snd (removeTabFromGroup i t w))) = fst (getSettings w)"
  by (simp add: removeTabFromGroup_def settings_frame_simps split: option.splits)

lemma settings_reorderTabsInGroup:
  "fst (getSettings (snd (reorderTabsInGroup i p w))) = fst (getSettings w)"
  by (simp add: reorderTabsInGroup_def settings_frame_simps split: option.splits)

lemma settings_reorderGroups:
  "fst (getSettings (snd (reorderGroups p w))) = fst (getSettings w)"
  by (simp add: reorderGroups_def settings_frame_simps)

lemma settings_moveTabBetweenGroups:
  "fst (getSettings (snd (moveTabBetweenGroups t a b w))) = fst (getSettings w)"
  by (simp add: moveTabBetweenGroups_def settings_frame_simps split: option.splits)

lemma settings_createGroup:
  "fst (getSettings (snd (createGroup r n d w))) = fst (getSettings w)"
  by (simp add: createGroup_def settings_frame_simps split: option.splits)

text \<open>
  C9. Each of the eight group mutators leaves the settings of the document unchanged:
  whatever the arguments and whether the call succeeds or fails, the settings read after
  the call are the settings read before it.
\<close>

theorem group_mutators_keep_settings:
  "fst (getSettings (snd (saveGroup g w))) = fst (getSettings w)
   \<and> fst (getSettings (snd (deleteGroup groupId w))) = fst (getSettings w)
   \<and> fst (getSettings (snd (addTabsToGroup groupId ts w))) = fst (getSettings w)
   \<and> fst (getSettings (snd (removeTabFromGroup groupId tabId w))) = fst (getSettings w)
   \<and> fst (getSettings (snd (reorderTabsInGroup groupId newOrder w))) = fst (getSettings w)
   \<and> fst (getSettings (snd (reorderGroups newOrder w))) = fst (getSettings w)
   \<and> fst (getSettings (snd (moveTabBetweenGroups tabId fromId toId w))) = fst (getSettings w)
   \<and> fst (getSettings (snd (createGroup rnd nm desc w))) = fst (getSettings w)"
  by (simp only: settings_saveGroup settings_deleteGroup settings_addTabsToGroup
      settings_removeTabFromGroup settings_reorderTabsInGroup settings_reorderGroups
      settings_moveTabBetweenGroups settings_createGroup simp_thms)

section \<open>Adding tabs\<close>

text \<open>
  C4. Adding one tab whose URL already occurs in an existing group succeeds and changes
  nothing in the group but its \<^verbatim>\<open>updatedAt\<close>: the tab list is the same list, so the
  existing tab stays, the new one is dropped and no second entry appears.
\<close>

theorem addTabsToGroup_existing_url:
  assumes "findGroupById (fst (getGroups w)) groupId = Some g"
    and "url t \<in> set (map url (tabs g))"
  shows "fst (addTabsToGroup groupId [t] w) = Inr ()
    \<and> (\<exists>now. findGroupById (fst (getGroups (snd (addTabsToGroup groupId [t] w)))) groupId
                = Some (g\<lparr>updatedAt := now\<rparr>))"
proof -
  let ?data = "fst (getStorageData w)"
  have f: "List.find (\<lambda>g. group_id g = groupId) (groups ?data) = Some g"
    using assms(1) by (simp add: getGroups_fst findGroupById_def)
  then have gid: "group_id g = groupId"
    by (auto simp: find_Some_iff)
  have "List.find (\<lambda>g. group_id g = groupId)
          (modify_first (\<lambda>g. group_id g = groupId)
             (\<lambda>g. g\<lparr>tabs := tabs g @ [], updatedAt := n\<rparr>) (groups ?data))
        = Some (g\<lparr>tabs := tabs g @ [], updatedAt := n\<rparr>)" for n
    by (rule find_modify_first[OF f]) (simp add: gid)
  then show ?thesis using f assms(2)
    by (auto simp add: addTabsToGroup_def getGroups_fst findGroupById_def split_def Let_def)
qed

theorem addTabsToGroup_existing_url_witness:
  "findGroupById (fst (getGroups someWorld)) ''g1'' = Some workGroup
   \<and> url tabA2 \<in> set (map url (tabs workGroup))
   \<and> fst (addTabsToGroup ''g1'' [tabA2] someWorld) = Inr ()
   \<and> findGroupById (fst (getGroups (snd (addTabsToGroup ''g1'' [tabA2] someWorld)))) ''g1''
       = Some (workGroup\<lparr>updatedAt := 1000\<rparr>)"
proof -
  have h1: "findGroupById (fst (getGroups someWorld)) ''g1'' = Some workGroup"
    by (simp add: getGroups_def getStorageData_def findGroupById_def example_defs)
  have h2: "url tabA2 \<in> set (map url (tabs workGroup))"
    by (simp add: example_defs)
  have r: "findGroupById (fst (getGroups (snd (addTabsToGroup ''g1'' [tabA2] someWorld)))) ''g1''
       = Some (workGroup\<lparr>updatedAt := 1000\<rparr>)"
    by (simp add: addTabsToGroup_def getGroups_def getStorageData_def findGroupById_def
        Date_now_def saveStorageData_def example_defs)
  show ?thesis
    using addTabsToGroup_existing_url[OF h1 h2] h1 h2 r by simp
qed

section \<open>Reordering\<close>

lemma mapById_distinct:
  assumes "distinct (map key xs)" and "x \<in> set xs"
  shows "mapById key xs (key x) = Some x"
proof -
  have "distinct (map fst (rev (map (\<lambda>x. (key x, x)) xs)))"
    using assms(1) by (simp add: rev_map[symmetric] comp_def)
  then show ?thesis using assms(2)
    by (simp add: mapById_def)
qed

lemma reorder_ids:
  assumes "distinct (map key xs)" and "set p \<subseteq> key ` set xs"
  shows "map key (map (\<lambda>i. the (mapById key xs i)) p) = p"
  using assms(2)
  by (induction p) (auto simp: mapById_distinct[OF assms(1)])

lemma reorder_mset:
  assumes "distinct (map key xs)" and "mset p = mset (map key xs)"
  shows "mset (map (\<lambda>i. the (mapById key xs i)) p) = mset xs"
proof -
  have "mset (map (\<lambda>i. the (mapById key xs i)) p)
        = image_mset (\<lambda>i. the (mapById key xs i)) (mset (map key xs))"
    using assms(2) by (metis mset_map)
  also have "\<dots> = image_mset (\<lambda>x. the (mapById key xs (key x))) (mset xs)"
    by (simp add: multiset.map_comp comp_def)
  also have "\<dots> = image_mset (\<lambda>x. x) (mset xs)"
    by (rule image_mset_cong) (simp add: mapById_distinct[OF assms(1)])
  finally show ?thesis by simp
qed

text \<open>
  C3. For an existing group \<open>g\<close> and a list \<open>p\<close> without repetition that holds exactly
  the tab ids of \<open>g\<close>, \<^verbatim>\<open>reorderTabsInGroup\<close> succeeds; the group read afterwards has
  its tab ids in the order \<open>p\<close>, its tabs are the tabs of \<open>g\<close> (the same records, so
  every other field of every tab is kept), and nothing else of the group changed but
  \<^verbatim>\<open>updatedAt\<close>.
\<close>

theorem reorderTabsInGroup_valid_permutation:
  assumes "findGroupById (fst (getGroups w)) groupId = Some g"
    and "distinct p"
    and "mset p = mset (map tab_id (tabs g))"
  shows "fst (reorderTabsInGroup groupId p w) = Inr ()
    \<and> (\<exists>g'. findGroupById (fst (getGroups (snd (reorderTabsInGroup groupId p w)))) groupId
               = Some g'
            \<and> map tab_id (tabs g') = p
            \<and> mset (tabs g') = mset (tabs g)
            \<and> g'\<lparr>tabs := tabs g, updatedAt := updatedAt g\<rparr> = g)"
proof -
  let ?data = "fst (getStorageData w)"
  let ?new = "map (\<lambda>i. the (mapById tab_id (tabs g) i)) p"
  have f: "List.find (\<lambda>g. group_id g = groupId) (groups ?data) = Some g"
    using assms(1) by (simp add: getGroups_fst findGroupById_def)
  then have gid: "group_id g = groupId"
    by (auto simp: find_Some_iff)
  have d: "distinct (map tab_id (tabs g))"
    using assms(2,3) by (metis mset_eq_imp_distinct_iff)
  have s: "set p = tab_id ` set (tabs g)"
    using assms(3) by (metis mset_eq_setD set_map)
  have l: "length p = length (tabs g)"
    using assms(3) by (metis length_map size_mset)
  have valid: "filter (\<lambda>i. i \<notin> set (map tab_id (tabs g))) p = []"
    using s by (auto simp: filter_empty_conv)
  have found: "List.find (\<lambda>g. group_id g = groupId)
          (modify_first (\<lambda>g. group_id g = groupId)
             (\<lambda>g. g\<lparr>tabs := ?new, updatedAt := n\<rparr>) (groups ?data))
        = Some (g\<lparr>tabs := ?new, updatedAt := n\<rparr>)" for n
    by (rule find_modify_first[OF f]) (simp add: gid)
  have ids: "map tab_id ?new = p"
    by (rule reorder_ids[OF d]) (simp add: s)
  have ms: "mset ?new = mset (tabs g)"
    by (rule reorder_mset[OF d assms(3)])
  show ?thesis
    using f valid l found ids ms
    by (simp add: reorderTabsInGroup_def getGroups_fst findGroupById_def split_def Let_def)
qed

theorem reorderTabsInGroup_valid_permutation_witness:
  "findGroupById (fst (getGroups someWorld)) ''g1'' = Some workGroup
   \<and> distinct [''b'', ''a'']
   \<and> mset [''b'', ''a''] = mset (map tab_id (tabs workGroup))
   \<and> fst (reorderTabsInGroup ''g1'' [''b'', ''a''] someWorld) = Inr ()
   \<and> findGroupById (fst (getGroups (snd (reorderTabsInGroup ''g1'' [''b'', ''a''] someWorld))))
        ''g1'' = Some (workGroup\<lparr>tabs := [tabB, tabA], updatedAt := 1000\<rparr>)"
proof -
  have h1: "findGroupById (fst (getGroups someWorld)) ''g1'' = Some workGroup"
    by (simp add: getGroups_def getStorageData_def findGroupById_def example_defs)
  have h2: "distinct [''b'', ''a'']"
    by simp
  have h3: "mset [''b'', ''a''] = mset (map tab_id (tabs workGroup))"
    by (simp add: example_defs)
  have r: "findGroupById (fst (getGroups (snd (reorderTabsInGroup ''g1'' [''b'', ''a''] someWorld))))
        ''g1'' = Some (workGroup\<lparr>tabs := [tabB, tabA], updatedAt := 1000\<rparr>)"
    by (simp add: reorderTabsInGroup_def getGroups_def getStorageData_def findGroupById_def
        mapById_def Date_now_def saveStorageData_def example_defs)
  show ?thesis
    using reorderTabsInGroup_valid_permutation[OF h1 h2 h3] h1 h2 h3 r by simp
qed

text \<open>
  What the two checks of the reordering functions do reject: a new order with an unknown
  id, or of another length than the list it reorders, fails before anything is written.
\<close>

lemma reorderTabsInGroup_rejected:
  assumes "findGroupById (fst (getGroups w)) groupId = Some g"
    and "\<not> set p \<subseteq> set (map tab_id (tabs g)) \<or> length p \<noteq> length (tabs g)"
  shows "(fst (reorderTabsInGroup groupId p w)
            = Inl (InvalidTabIds (filter (\<lambda>i. i \<notin> set (map tab_id (tabs g))) p))
          \<or> fst (reorderTabsInGroup groupId p w) = Inl MustIncludeAllTabs)
       \<and> store (snd (reorderTabsInGroup groupId p w)) = store w"
proof -
  have f: "findGroupById (groups (fst (getStorageData w))) groupId = Some g"
    using assms(1) by (simp add: getGroups_fst)
  have "filter (\<lambda>i. i \<notin> set (map tab_id (tabs g))) p \<noteq> [] \<or> length p \<noteq> length (tabs g)"
    using assms(2) by (auto simp: filter_empty_conv)
  then show ?thesis using f getStorageData_store[of w]
    by (auto simp add: reorderTabsInGroup_def split_def Let_def)
qed

lemma reorderGroups_rejected:
  assumes "\<not> set p \<subseteq> set (map group_id (fst (getGroups w)))
           \<or> length p \<noteq> length (fst (getGroups w))"
  shows "(fst (reorderGroups p w)
            = Inl (InvalidGroupIds (filter (\<lambda>i. i \<notin> set (map group_id (fst (getGroups w)))) p))
          \<or> fst (reorderGroups p w) = Inl MustIncludeAllGroups)
       \<and> store (snd (reorderGroups p w)) = store w"
proof -
  have "filter (\<lambda>i. i \<notin> set (map group_id (groups (fst (getStorageData w))))) p \<noteq> []
        \<or> length p \<noteq> length (groups (fst (getStorageData w)))"
    using assms by (auto simp: filter_empty_conv getGroups_fst)
  then show ?thesis using getStorageData_store[of w]
    by (auto simp add: reorderGroups_def getGroups_fst split_def Let_def)
qed

text \<open>
  C1. The two checks of \<^verbatim>\<open>reorderTabsInGroup\<close> (every id of the new order is known;
  the new order is as long as the tab list) let through a new order that repeats one id
  and omits another. For the group with the tabs a and b, the order a, a is accepted:
  the call succeeds and stores the tab a twice, and the tab b is gone.
  \<^verbatim>\<open>reorderGroups\<close> has the same two checks and accepts a repeated group id in the
  same way.
\<close>

theorem reorder_accepts_repeated_id:
  "fst (reorderTabsInGroup ''g1'' [''a'', ''a''] someWorld) = Inr ()
   \<and> map_option groups (store (snd (reorderTabsInGroup ''g1'' [''a'', ''a''] someWorld)))
       = Some [defaultGroup, workGroup\<lparr>tabs := [tabA, tabA], updatedAt := 1000\<rparr>]
   \<and> fst (reorderGroups [''g1'', ''g1''] someWorld) = Inr ()
   \<and> map_option groups (store (snd (reorderGroups [''g1'', ''g1''] someWorld)))
       = Some [workGroup, workGroup]"
  by (simp add: reorderTabsInGroup_def reorderGroups_def getStorageData_def findGroupById_def
      mapById_def Date_now_def saveStorageData_def example_defs)

section \<open>Creating groups\<close>

lemma dropWhile_self: "xs = [] \<or> \<not> P (hd xs) \<Longrightarrow> dropWhile P xs = xs"
  by (cases xs) auto

lemma last_dropWhile_keep: "dropWhile P xs \<noteq> [] \<Longrightarrow> last (dropWhile P xs) = last xs"
  by (induction xs) (auto split: if_splits)

lemma trim_trim: "trim (trim s) = trim s"
proof -
  let ?P = isWhiteSpace
  let ?xs = "dropWhile ?P s"
  let ?ys = "dropWhile ?P (rev ?xs)"
  have a: "dropWhile ?P (rev ?ys) = rev ?ys"
  proof (cases "?ys = []")
    case True
    then show ?thesis by (simp only: rev.simps dropWhile.simps)
  next
    case False
    then have x: "?xs \<noteq> []" by (metis dropWhile.simps(1) rev.simps(1))
    have "hd (rev ?ys) = last ?ys" using False by (simp add: hd_rev)
    also have "\<dots> = last (rev ?xs)" using False by (rule last_dropWhile_keep)
    also have "\<dots> = hd ?xs" using x by (simp add: last_rev)
    finally have "\<not> ?P (hd (rev ?ys))" using x hd_dropWhile[of ?P s] by simp
    then show ?thesis by (intro dropWhile_self) simp
  qed
  show ?thesis
    unfolding trim_def by (simp only: a rev_rev_ident dropWhile_idem)
qed

lemma trim_Nil [simp]: "trim [] = []"
  by (simp add: trim_def)

lemma createGroup_blank:
  "nm = [] \<or> trim nm = [] \<Longrightarrow> createGroup rnd nm desc w = (Inl EmptyGroupName, w)"
  by (simp add: createGroup_def)

lemma createGroup_duplicate:
  assumes "trim nm \<noteq> []" and "g \<in> set (fst (getGroups w))"
    and "toLowerCase (trim (name g)) = toLowerCase (trim nm)"
  shows "fst (createGroup rnd nm desc w) = Inl (DuplicateGroupName nm)
       \<and> store (snd (createGroup rnd nm desc w)) = store w"
proof -
  have n: "nm \<noteq> []" using assms(1) by auto
  have "List.find (\<lambda>g. toLowerCase (trim (name g)) = toLowerCase (trim nm))
          (groups (fst (getStorageData w))) \<noteq> None"
    using assms(2,3) by (intro find_not_None[of g]) (simp_all add: getGroups_fst)
  then show ?thesis using n assms(1) getStorageData_store[of w]
    by (auto simp add: createGroup_def split_def Let_def split: option.splits)
qed

lemma createGroup_success:
  assumes "fst (createGroup rnd nm desc w) = Inr g"
  shows "name g = trim nm \<and> g \<in> set (fst (getGroups (snd (createGroup rnd nm desc w))))"
  using assms
  by (auto simp add: createGroup_def getGroups_fst createNewGroup_def generateGroupId_def
      Date_now_def split_def Let_def split: option.splits if_splits)

text \<open>
  C6. \<^verbatim>\<open>createGroup\<close> fails with "Group name cannot be empty" when the name is empty
  or white space only, and with "Group with name ... already exists" when some group's
  trimmed, lower-cased name equals the trimmed, lower-cased new name (both are the
  validation errors of the specification); in both cases nothing is written. In
  particular, after a successful \<^verbatim>\<open>createGroup\<close> a second call with a name that is
  equal up to case and surrounding white space fails.
\<close>

theorem createGroup_rejects_blank_and_duplicate_names:
  "(nm = [] \<or> trim nm = [] \<longrightarrow> createGroup rnd nm desc w = (Inl EmptyGroupName, w))
   \<and> (trim nm \<noteq> [] \<and> g \<in> set (fst (getGroups w))
        \<and> toLowerCase (trim (name g)) = toLowerCase (trim nm) \<longrightarrow>
        fst (createGroup rnd nm desc w) = Inl (DuplicateGroupName nm)
        \<and> store (snd (createGroup rnd nm desc w)) = store w)
   \<and> (fst (createGroup rnd nm desc w) = Inr g' \<and> trim nm' \<noteq> []
        \<and> toLowerCase (trim nm') = toLowerCase (trim nm) \<longrightarrow>
        fst (createGroup rnd' nm' desc' (snd (createGroup rnd nm desc w)))
          = Inl (DuplicateGroupName nm')
        \<and> store (snd (createGroup rnd' nm' desc' (snd (createGroup rnd nm desc w))))
          = store (snd (createGroup rnd nm desc w)))"
proof (intro conjI impI)
  assume "nm = [] \<or> trim nm = []"
  then show "createGroup rnd nm desc w = (Inl EmptyGroupName, w)"
    by (rule createGroup_blank)
next
  assume a: "trim nm \<noteq> [] \<and> g \<in> set (fst (getGroups w))
        \<and> toLowerCase (trim (name g)) = toLowerCase (trim nm)"
  then show "fst (createGroup rnd nm desc w) = Inl (DuplicateGroupName nm)"
    and "store (snd (createGroup rnd nm desc w)) = store w"
    using createGroup_duplicate[of nm g w rnd desc] by simp_all
next
  assume a: "fst (createGroup rnd nm desc w) = Inr g' \<and> trim nm' \<noteq> []
        \<and> toLowerCase (trim nm') = toLowerCase (trim nm)"
  let ?w = "snd (createGroup rnd nm desc w)"
  have "name g' = trim nm" and "g' \<in> set (fst (getGroups ?w))"
    using a createGroup_success[of rnd nm desc w g'] by simp_all
  then have "fst (createGroup rnd' nm' desc' ?w) = Inl (DuplicateGroupName nm')
       \<and> store (snd (createGroup rnd' nm' desc' ?w)) = store ?w"
    using a by (intro createGroup_duplicate[of nm' g']) (simp_all add: trim_trim)
  then show "fst (createGroup rnd' nm' desc' ?w) = Inl (DuplicateGroupName nm')"
    and "store (snd (createGroup rnd' nm' desc' ?w)) = store ?w"
    by simp_all
qed

theorem createGroup_rejects_blank_and_duplicate_names_witness:
  "trim ''  '' = []
   \<and> createGroup ''x7'' ''  '' None someWorld = (Inl EmptyGroupName, someWorld)
   \<and> trim '' work '' \<noteq> []
   \<and> workGroup \<in> set (fst (getGroups someWorld))
   \<and> toLowerCase (trim (name workGroup)) = toLowerCase (trim '' work '')
   \<and> fst (createGroup ''x7'' '' work '' None someWorld) = Inl (DuplicateGroupName '' work '')
   \<and> store (snd (createGroup ''x7'' '' work '' None someWorld)) = store someWorld
   \<and> fst (createGroup ''x7'' ''Work'' None freshWorld) = Inr createdWork
   \<and> toLowerCase (trim ''work'') = toLowerCase (trim ''Work'')
   \<and> fst (createGroup ''y8'' ''work'' None (snd (createGroup ''x7'' ''Work'' None freshWorld)))
       = Inl (DuplicateGroupName ''work'')"
proof -
  have h1: "trim ''  '' = []" by code_simp
  have h2: "trim '' work '' \<noteq> []" by code_simp
  have h3: "workGroup \<in> set (fst (getGroups someWorld))"
    by (simp add: getGroups_def getStorageData_def example_defs)
  have h4: "toLowerCase (trim (name workGroup)) = toLowerCase (trim '' work '')" by code_simp
  have h5: "fst (createGroup ''x7'' ''Work'' None freshWorld) = Inr createdWork" by code_simp
  have h6: "trim ''work'' \<noteq> []" by code_simp
  have h7: "toLowerCase (trim ''work'') = toLowerCase (trim ''Work'')" by code_simp
  show ?thesis
    using createGroup_rejects_blank_and_duplicate_names
            [of "''  ''" "''x7''" None someWorld workGroup]
          createGroup_rejects_blank_and_duplicate_names
            [of "'' work ''" "''x7''" None someWorld workGroup]
          createGroup_rejects_blank_and_duplicate_names
            [of "''Work''" "''x7''" None freshWorld workGroup createdWork "''work''" "''y8''" None]
          h1 h2 h3 h4 h5 h6 h7
    by simp
qed

section \<open>The session\<close>

lemma signOut_auth: "auth (signOut w) = signedOut"
  by (simp add: signOut_def markUserAsSignedOut_def notifyListeners_def saveSettings_def
      signedOut_def store_defs split: option.splits)

lemma signOut_notified: "notified (signOut w) = notified w @ [signedOut]"
  by (simp add: signOut_def markUserAsSignedOut_def notifyListeners_def saveSettings_def
      signedOut_def store_defs split: option.splits)

lemma signOut_launches: "launches (signOut w) = launches w"
  by (simp add: signOut_def markUserAsSignedOut_def notifyListeners_def saveSettings_def
      store_defs split: option.splits)

lemma signOut_token: "oauthToken (fst (getSettings (signOut w))) = None"
  by (simp add: signOut_def markUserAsSignedOut_def notifyListeners_def saveSettings_def
      spread_def mergeKey_def store_defs split: option.splits)

text \<open>
  C7. \<^verbatim>\<open>ensureAuthenticated\<close> never starts the interactive flow. Without a signed-in
  state with a token it fails at once with the sign-in-required error and changes
  nothing. Signed in with a token that the remote check does not accept (the check
  returns false or throws), it signs out first (the session is the signed-out state, the
  listeners are told, the stored token is cleared) and then fails with the same error.
  It returns normally exactly when signed in with a token the remote check accepts, and
  then changes nothing.
\<close>

theorem ensureAuthenticated_never_signs_in:
  "(\<not> (isSignedIn (auth w) \<and> truthy (token (auth w))) \<longrightarrow>
      ensureAuthenticated e w = (Inl AuthRequired, w))
   \<and> (isSignedIn (auth w) \<and> token (auth w) = Some tk \<and> tk \<noteq> []
        \<and> testGitHubToken e tk \<noteq> Inr True \<longrightarrow>
        fst (ensureAuthenticated e w) = Inl AuthRequired
        \<and> auth (snd (ensureAuthenticated e w)) = signedOut
        \<and> notified (snd (ensureAuthenticated e w)) = notified w @ [signedOut]
        \<and> oauthToken (fst (getSettings (snd (ensureAuthenticated e w)))) = None)
   \<and> (isSignedIn (auth w) \<and> token (auth w) = Some tk \<and> tk \<noteq> []
        \<and> testGitHubToken e tk = Inr True \<longrightarrow>
        ensureAuthenticated e w = (Inr (), w))
   \<and> (fst (ensureAuthenticated e w) = Inr () \<longrightarrow>
        isSignedIn (auth w)
        \<and> (\<exists>t. token (auth w) = Some t \<and> t \<noteq> [] \<and> testGitHubToken e t = Inr True))
   \<and> launches (snd (ensureAuthenticated e w)) = launches w"
proof (intro conjI impI)
  show "launches (snd (ensureAuthenticated e w)) = launches w"
    by (simp add: ensureAuthenticated_def signOut_launches split: sum.splits)
next
  assume "fst (ensureAuthenticated e w) = Inr ()"
  then show "isSignedIn (auth w)"
    and "\<exists>t. token (auth w) = Some t \<and> t \<noteq> [] \<and> testGitHubToken e t = Inr True"
    by (cases "token (auth w)"; auto simp add: ensureAuthenticated_def split: sum.splits if_splits)+
next
  assume a: "isSignedIn (auth w) \<and> token (auth w) = Some tk \<and> tk \<noteq> []
        \<and> testGitHubToken e tk \<noteq> Inr True"
  then have r: "ensureAuthenticated e w = (Inl AuthRequired, signOut w)"
    by (auto simp add: ensureAuthenticated_def split: sum.splits)
  show "fst (ensureAuthenticated e w) = Inl AuthRequired"
    and "auth (snd (ensureAuthenticated e w)) = signedOut"
    and "notified (snd (ensureAuthenticated e w)) = notified w @ [signedOut]"
    and "oauthToken (fst (getSettings (snd (ensureAuthenticated e w)))) = None"
    by (simp_all add: r signOut_auth signOut_notified signOut_token)
qed (auto simp add: ensureAuthenticated_def)

theorem ensureAuthenticated_never_signs_in_witness:
  "\<not> (isSignedIn (auth someWorld) \<and> truthy (token (auth someWorld)))
   \<and> ensureAuthenticated goodEnv someWorld = (Inl AuthRequired, someWorld)
   \<and> isSignedIn (auth signedInWorld) \<and> token (auth signedInWorld) = Some ''tok''
   \<and> testGitHubToken deniedEnv ''tok'' \<noteq> Inr True
   \<and> fst (ensureAuthenticated deniedEnv signedInWorld) = Inl AuthRequired
   \<and> auth (snd (ensureAuthenticated deniedEnv signedInWorld)) = signedOut
   \<and> notified (snd (ensureAuthenticated deniedEnv signedInWorld)) = [signedOut]
   \<and> oauthToken (fst (getSettings (snd (ensureAuthenticated deniedEnv signedInWorld)))) = None
   \<and> testGitHubToken goodEnv ''tok'' = Inr True
   \<and> ensureAuthenticated goodEnv signedInWorld = (Inr (), signedInWorld)
   \<and> launches (snd (ensureAuthenticated deniedEnv signedInWorld)) = 0"
proof -
  have h1: "\<not> (isSignedIn (auth someWorld) \<and> truthy (token (auth someWorld)))"
    by (simp add: example_defs)
  have h2: "isSignedIn (auth signedInWorld) \<and> token (auth signedInWorld) = Some ''tok''"
    by (simp add: example_defs)
  have h3: "testGitHubToken deniedEnv ''tok'' \<noteq> Inr True"
    by (simp add: testGitHubToken_def example_defs)
  have h4: "testGitHubToken goodEnv ''tok'' = Inr True"
    by (simp add: testGitHubToken_def example_defs)
  have h5: "notified signedInWorld = []" "launches signedInWorld = 0"
    by (simp_all add: example_defs)
  show ?thesis
    using ensureAuthenticated_never_signs_in[where w = someWorld and e = goodEnv]
          ensureAuthenticated_never_signs_in
            [where w = signedInWorld and e = deniedEnv and tk = "''tok''"]
          ensureAuthenticated_never_signs_in
            [where w = signedInWorld and e = goodEnv and tk = "''tok''"]
          h1 h2 h3 h4 h5
    by simp
qed

lemma authenticate_denied:
  assumes "flow e = FlowCallback params" and "map_of params ''error'' = Some ''access_denied''"
  shows "authenticateWithGitHub e cid sec w
         = (Inl AccessDenied,
            w\<lparr>oauthCodeVerifier := Some (newVerifier e), launches := Suc (launches w)\<rparr>)"
  using assms by (simp add: authenticateWithGitHub_def Let_def)

text \<open>
  C8. When client id and secret are configured and the callback URL of the flow carries
  \<^verbatim>\<open>error=access_denied\<close>, \<^verbatim>\<open>signIn\<close> fails with the error whose message tells
  the user to press "Authorize"; the stored document, and so the stored token, is
  unchanged, the session state is unchanged (signed out stays signed out) and no
  listener is notified.
\<close>

theorem signIn_access_denied:
  assumes "truthy (githubClientId (fst (getSettings w)))"
    and "truthy (githubClientSecret (fst (getSettings w)))"
    and "flow e = FlowCallback params"
    and "map_of params ''error'' = Some ''access_denied''"
  shows "fst (signIn e w) = Inl AccessDenied
    \<and> store (snd (signIn e w)) = store w
    \<and> oauthToken (fst (getSettings (snd (signIn e w)))) = oauthToken (fst (getSettings w))
    \<and> auth (snd (signIn e w)) = auth w
    \<and> notified (snd (signIn e w)) = notified w"
  using assms(1,2)
  by (simp add: signIn_def authenticate_denied[OF assms(3,4)] store_defs split: option.splits)

theorem signIn_access_denied_witness:
  "truthy (githubClientId (fst (getSettings someWorld)))
   \<and> truthy (githubClientSecret (fst (getSettings someWorld)))
   \<and> flow deniedEnv = FlowCallback [(''error'', ''access_denied''), (''state'', ''s'')]
   \<and> map_of [(''error'', ''access_denied''), (''state'', ''s'')] ''error'' = Some ''access_denied''
   \<and> fst (signIn deniedEnv someWorld) = Inl AccessDenied
   \<and> store (snd (signIn deniedEnv someWorld)) = store someWorld
   \<and> oauthToken (fst (getSettings (snd (signIn deniedEnv someWorld)))) = Some ''tok''
   \<and> auth (snd (signIn deniedEnv someWorld)) = signedOut
   \<and> notified (snd (signIn deniedEnv someWorld)) = []"
proof -
  have s: "fst (getSettings someWorld) = someSettings"
    by (simp add: getSettings_def getStorageData_def someWorld_def)
  have h1: "truthy (githubClientId (fst (getSettings someWorld)))"
    and h2: "truthy (githubClientSecret (fst (getSettings someWorld)))"
    by (simp_all add: s someSettings_def)
  have h3: "flow deniedEnv = FlowCallback [(''error'', ''access_denied''), (''state'', ''s'')]"
    by (simp add: deniedEnv_def)
  have h4: "map_of [(''error'', ''access_denied''), (''state'', ''s'')] ''error''
            = Some ''access_denied''"
    by simp
  have v: "oauthToken (fst (getSettings someWorld)) = Some ''tok''"
    "auth someWorld = signedOut" "notified someWorld = []"
    by (simp_all add: s someSettings_def) (simp_all add: someWorld_def)
  show ?thesis
    using signIn_access_denied[OF h1 h2 h3 h4] h1 h2 h3 h4 v by simp
qed

section \<open>JSON round trip\<close>

subsection \<open>Numbers\<close>

text \<open>Parsing the digits that \<open>showInt\<close> prints gives the number back.\<close>

lemma digit_char: "d < 10 \<Longrightarrow> isDigit (char_of (48 + d)) \<and> (of_char (char_of (48 + d)) :: nat) = 48 + d"
  by (simp add: isDigit_def)

lemma digits_not_Nil: "digits n \<noteq> []"
  by (subst digits.simps) simp

lemma digits_all: "list_all isDigit (digits n)"
proof (induction n rule: digits.induct)
  case (1 n)
  show ?case
  proof (cases "n < 10")
    case True
    then show ?thesis by (subst digits.simps) (simp add: digit_char)
  next
    case False
    then show ?thesis using 1 by (subst digits.simps) (simp add: digit_char)
  qed
qed

lemma digitsValue_snoc: "digitsValue (ds @ [d]) = 10 * digitsValue ds + (of_char d - 48)"
  by (simp add: digitsValue_def)

lemma digitsValue_digits: "digitsValue (digits n) = n"
proof (induction n rule: digits.induct)
  case (1 n)
  show ?case
  proof (cases "n < 10")
    case True
    then show ?thesis by (subst digits.simps) (simp add: digitsValue_def digit_char)
  next
    case False
    then show ?thesis using 1
      by (subst digits.simps) (simp add: digitsValue_snoc digit_char)
  qed
qed

lemma hd_digits: "0 < n \<Longrightarrow> hd (digits n) \<noteq> CHR ''0''"
proof (induction n rule: digits.induct)
  case (1 n)
  show ?case
  proof (cases "n < 10")
    case True
    then have "(of_char (char_of (48 + n)) :: nat) \<noteq> of_char (CHR ''0'')"
      using 1(2) by simp
    then have "char_of (48 + n) \<noteq> CHR ''0''" by metis
    then show ?thesis using True by (subst digits.simps) simp
  next
    case False
    then have "hd (digits (n div 10)) \<noteq> CHR ''0''" using 1 by simp
    then show ?thesis using False by (subst digits.simps) (simp add: digits_not_Nil)
  qed
qed

lemma length_digits_zero: "digits 0 = ''0''"
  by code_simp

lemma okRest_digits: "okRest r \<Longrightarrow> takeWhile isDigit r = [] \<and> \<not> startsFraction r"
  by (cases r) (auto simp: okRest_def isDigit_def startsFraction_def)

lemma takeWhile_digits:
  "okRest r \<Longrightarrow> takeWhile isDigit (digits n @ r) = digits n \<and> dropWhile isDigit (digits n @ r) = r"
proof -
  assume o: "okRest r"
  have a: "\<forall>x\<in>set (digits n). isDigit x" using digits_all[of n] by (simp add: list_all_iff)
  have "takeWhile isDigit r = []" using o okRest_digits by simp
  then have "dropWhile isDigit r = r" by (metis takeWhile_dropWhile_id append_Nil)
  then show ?thesis using a \<open>takeWhile isDigit r = []\<close>
    by (simp add: takeWhile_append2 dropWhile_append2)
qed

lemma digits_leading: "\<not> (hd (digits n) = CHR ''0'' \<and> 1 < length (digits n))"
proof (cases "n = 0")
  case True
  then show ?thesis by (simp add: length_digits_zero)
next
  case False
  then show ?thesis using hd_digits[of n] by simp
qed

lemma hd_digits_not_minus: "hd (digits n) \<noteq> CHR ''-''"
proof -
  have "isDigit (hd (digits n))"
    using digits_all[of n] digits_not_Nil[of n] by (cases "digits n") simp_all
  then show ?thesis by (auto simp: isDigit_def)
qed

lemma parseNumber_showInt:
  assumes "okRest r"
  shows "parseNumber (showInt i @ r) = Some (i, r)"
proof (cases "i < 0")
  case True
  let ?ds = "digits (nat (- i))"
  have "parseNumber ((CHR ''-'' # ?ds) @ r) = Some (- int (digitsValue ?ds), r)"
    using takeWhile_digits[OF assms, of "nat (- i)"] digits_leading[of "nat (- i)"]
      okRest_digits[OF assms] digits_not_Nil[of "nat (- i)"]
    by (simp add: parseNumber_def Let_def)
  then show ?thesis using True by (simp add: showInt_def digitsValue_digits)
next
  case False
  let ?ds = "digits (nat i)"
  obtain c cs where ds: "?ds = c # cs" using digits_not_Nil[of "nat i"] by (cases ?ds) auto
  have c: "c \<noteq> CHR ''-''" using hd_digits_not_minus[of "nat i"] ds by simp
  have "parseNumber (?ds @ r) = Some (int (digitsValue ?ds), r)"
    using takeWhile_digits[OF assms, of "nat i"] digits_leading[of "nat i"]
      okRest_digits[OF assms] c
    by (simp add: parseNumber_def Let_def ds)
  then show ?thesis using False by (simp add: showInt_def digitsValue_digits)
qed

subsection \<open>Strings\<close>

text \<open>Parsing a quoted string gives the string back, for every code unit.\<close>

lemma hexValue_hexDigit: "k < 16 \<Longrightarrow> hexValue (hexDigit k) = Some k"
  by (auto simp: hexValue_def hexDigit_def Let_def)

lemma char_of_split: "char_of (16 * ((of_char c :: nat) div 16) + of_char c mod 16) = c"
  by simp

lemma hexDigit_16: "(of_char c :: nat) < 32 \<Longrightarrow> (of_char c :: nat) div 16 < 16"
  by simp

lemma unicodeEscape_low:
  assumes "(of_char c :: nat) < 32"
  shows "unicodeEscape (CHR ''0'') (CHR ''0'') (hexDigit (of_char c div 16))
           (hexDigit (of_char c mod 16)) = Some c"
proof -
  have z: "hexValue (CHR ''0'') = Some 0" by (simp add: hexValue_def)
  have a: "hexValue (hexDigit ((of_char c :: nat) div 16)) = Some (of_char c div 16)"
    using assms by (intro hexValue_hexDigit) simp
  have b: "hexValue (hexDigit ((of_char c :: nat) mod 16)) = Some (of_char c mod 16)"
    by (intro hexValue_hexDigit) simp
  show ?thesis
    by (simp add: unicodeEscape_def z a b)
qed

lemma parseChars_escapeChar: "parseChars (escapeChar c @ t) = consChar c (parseChars t)"
proof -
  consider "c = CHR 0x22" | "c = CHR 0x5C" | "c = CHR 0x08" | "c = CHR 0x0C" | "c = CHR 0x0A"
    | "c = CHR 0x0D" | "c = CHR 0x09"
    | "c \<notin> set [CHR 0x22, CHR 0x5C, CHR 0x08, CHR 0x0C, CHR 0x0A, CHR 0x0D, CHR 0x09]"
      "(of_char c :: nat) < 32"
    | "c \<notin> set [CHR 0x22, CHR 0x5C, CHR 0x08, CHR 0x0C, CHR 0x0A, CHR 0x0D, CHR 0x09]"
      "\<not> (of_char c :: nat) < 32"
    by auto
  then show ?thesis
  proof cases
    case 8
    then show ?thesis
      by (simp add: escapeChar_def unicodeEscape_low)
  next
    case 9
    then show ?thesis
      by (simp add: escapeChar_def)
  qed (simp_all add: escapeChar_def unescapeChar_def)
qed

lemma parseChars_escaped:
  "parseChars (concat (map escapeChar s) @ CHR 0x22 # r) = Some (s, r)"
  by (induction s) (simp_all add: parseChars_escapeChar consChar_def)

lemma parseChars_quoted: "quoteJSONString s @ r = CHR 0x22 # concat (map escapeChar s) @ CHR 0x22 # r"
  by (simp add: quoteJSONString_def)

subsection \<open>Arrays and objects\<close>

text \<open>
  The parser reads back every printed value, at every indentation, when the counter is
  at least twice the length of the printed text.
\<close>

lemma skipWs_opens: "opens s \<Longrightarrow> skipWs (s @ r) = s @ r"
  by (cases s) (auto simp: opens_def skipWs_def)

lemma dropWhile_replicate: "P x \<Longrightarrow> dropWhile P (replicate k x @ s) = dropWhile P s"
  by (induction k) simp_all

lemma skipWs_newline [simp]: "skipWs (newline k @ s) = skipWs s"
  by (simp add: newline_def skipWs_def isJsonWs_def dropWhile_replicate)

lemma parseValue_newline [simp]: "parseValue f (newline k @ s) = parseValue f s"
  by (cases f) simp_all

lemma parseElements_newline [simp]: "parseElements f (newline k @ s) = parseElements f s"
  by (cases f) simp_all

lemma parseMembers_newline [simp]: "parseMembers f (newline k @ s) = parseMembers f s"
  by (cases f) simp_all

lemma parseValue_space: "parseValue f (CHR '' '' # s) = parseValue f s"
  by (cases f) (simp_all add: skipWs_def isJsonWs_def)

lemma opens_append: "opens s \<Longrightarrow> opens (s @ t)"
  by (cases s) (auto simp: opens_def)

lemma skipWs_keep [simp]: "\<not> isJsonWs c \<Longrightarrow> skipWs (c # s) = c # s"
  by (simp add: skipWs_def)

lemma opens_digits: "opens (digits k)"
proof -
  have "isDigit (hd (digits k))"
    using digits_all[of k] digits_not_Nil[of k] by (cases "digits k") simp_all
  then show ?thesis using digits_not_Nil[of k]
    by (cases "digits k") (auto simp: opens_def isDigit_def isJsonWs_def)
qed

lemma opens_stringifyAt: "opens (stringifyAt n j)"
proof (cases j)
  case (JNum i)
  then show ?thesis using opens_digits[of "nat i"] 
    by (auto simp: showInt_def opens_def isJsonWs_def)
qed (auto simp: opens_def isJsonWs_def quoteJSONString_def)

lemma opens_elements: "xs \<noteq> [] \<Longrightarrow> opens (stringifyElements n xs)"
  using opens_stringifyAt by (cases xs) (simp_all add: opens_append)

lemma opens_members: "kvs \<noteq> [] \<Longrightarrow> opens (stringifyMembers n kvs)"
  by (cases kvs) (auto simp: opens_def quoteJSONString_def isJsonWs_def)

lemma okRest_simps [simp]:
  "okRest []" "okRest (CHR '','' # s)" "okRest (newline k @ s)"
  by (simp_all add: okRest_def newline_def)

lemma ws_chars [simp]:
  "\<not> isJsonWs (CHR ''['')" "\<not> isJsonWs (CHR ''{'')" "\<not> isJsonWs (CHR 0x22)"
  "\<not> isJsonWs (CHR '','')" "\<not> isJsonWs (CHR '']'')" "\<not> isJsonWs (CHR ''}'')"
  "\<not> isJsonWs (CHR '':'')" "\<not> isJsonWs (CHR ''n'')" "\<not> isJsonWs (CHR ''t'')"
  "\<not> isJsonWs (CHR ''f'')" "isJsonWs (CHR '' '')"
  by (simp_all add: isJsonWs_def)

lemma parseValue_number:
  assumes "okRest r"
  shows "parseValue (Suc f) (showInt i @ r) = Some (JNum i, r)"
proof -
  have o: "opens (showInt i)" using opens_stringifyAt[of 0 "JNum i"] by simp
  then obtain c t where ct: "showInt i = c # t" by (cases "showInt i") (auto simp: opens_def)
  have "isDigit c \<or> c = CHR ''-''"
    using ct digits_all[of "nat i"] digits_not_Nil[of "nat i"]
    by (cases "digits (nat i)") (auto simp: showInt_def split: if_splits)
  then have c: "c \<notin> set [CHR ''n'', CHR ''t'', CHR ''f'', CHR 0x22, CHR ''['', CHR ''{'']"
    by (auto simp: isDigit_def)
  have "skipWs (showInt i @ r) = c # t @ r" using skipWs_opens[OF o] ct by simp
  then show ?thesis using c parseNumber_showInt[OF assms, of i] ct by simp
qed

lemma parse_stringify:
  "\<forall>f r. 2 * length (stringifyAt n j) \<le> f \<longrightarrow> okRest r \<longrightarrow>
      parseValue f (stringifyAt n j @ r) = Some (j, r)"
  "\<forall>f m r. xs \<noteq> [] \<longrightarrow> 2 * length (stringifyElements n xs) + 1 \<le> f \<longrightarrow>
      parseElements f (stringifyElements n xs @ newline m @ CHR '']'' # r) = Some (xs, r)"
  "\<forall>f m r. kvs \<noteq> [] \<longrightarrow> 2 * length (stringifyMembers n kvs) + 1 \<le> f \<longrightarrow>
      parseMembers f (stringifyMembers n kvs @ newline m @ CHR ''}'' # r) = Some (kvs, r)"
proof (induction n j and n xs and n kvs
    rule: stringifyAt_stringifyElements_stringifyMembers.induct)
  case (1 n)
  show ?case
  proof (intro allI impI)
    fix f r assume "2 * length (stringifyAt n JNull) \<le> f"
    then obtain f' where "f = Suc f'" by (cases f) auto
    then show "parseValue f (stringifyAt n JNull @ r) = Some (JNull, r)" by simp
  qed
next
  case (2 n b)
  show ?case
  proof (intro allI impI)
    fix f r assume "2 * length (stringifyAt n (JBool b)) \<le> f"
    then obtain f' where "f = Suc f'" by (cases f) (auto split: if_splits)
    then show "parseValue f (stringifyAt n (JBool b) @ r) = Some (JBool b, r)" by simp
  qed
next
  case (3 n i)
  show ?case
  proof (intro allI impI)
    fix f r assume a: "2 * length (stringifyAt n (JNum i)) \<le> f" and o: "okRest r"
    have "stringifyAt n (JNum i) \<noteq> []" using opens_stringifyAt[of n "JNum i"] by (auto simp: opens_def)
    then obtain f' where "f = Suc f'" using a by (cases f) auto
    then show "parseValue f (stringifyAt n (JNum i) @ r) = Some (JNum i, r)"
      using parseValue_number[OF o] by simp
  qed
next
  case (4 n s)
  show ?case
  proof (intro allI impI)
    fix f r assume a: "2 * length (stringifyAt n (JStr s)) \<le> f"
    then obtain f' where "f = Suc f'" by (cases f) (auto simp: quoteJSONString_def)
    then show "parseValue f (stringifyAt n (JStr s) @ r) = Some (JStr s, r)"
      by (simp add: parseChars_quoted parseChars_escaped)
  qed
next
  case (5 n xs)
  show ?case
  proof (intro allI impI)
    fix f r assume a: "2 * length (stringifyAt n (JArr xs)) \<le> f"
    show "parseValue f (stringifyAt n (JArr xs) @ r) = Some (JArr xs, r)"
    proof (cases "xs = []")
      case True
      then obtain f' where "f = Suc f'" using a by (cases f) auto
      then show ?thesis using True by simp
    next
      case False
      let ?E = "stringifyElements (n + 2) xs"
      obtain f' where f: "f = Suc f'" using a False by (cases f) auto
      have fuel: "2 * length ?E + 1 \<le> f'" using a f False by simp
      have ih: "parseElements f' (?E @ newline n @ CHR '']'' # r) = Some (xs, r)"
        using 5 False fuel by blast
      have o: "opens ?E" using False by (rule opens_elements)
      then obtain c t where ct: "?E = c # t" and c: "\<not> isJsonWs c" "c \<noteq> CHR '']''"
        by (cases ?E) (auto simp: opens_def)
      have "skipWs (?E @ newline n @ CHR '']'' # r) = c # t @ newline n @ CHR '']'' # r"
        using skipWs_opens[OF o] ct by simp
      then show ?thesis using False f ih c ct by simp
    qed
  qed
next
  case (6 n kvs)
  show ?case
  proof (intro allI impI)
    fix f r assume a: "2 * length (stringifyAt n (JObj kvs)) \<le> f"
    show "parseValue f (stringifyAt n (JObj kvs) @ r) = Some (JObj kvs, r)"
    proof (cases "kvs = []")
      case True
      then obtain f' where "f = Suc f'" using a by (cases f) auto
      then show ?thesis using True by simp
    next
      case False
      let ?E = "stringifyMembers (n + 2) kvs"
      obtain f' where f: "f = Suc f'" using a False by (cases f) auto
      have fuel: "2 * length ?E + 1 \<le> f'" using a f False by simp
      have ih: "parseMembers f' (?E @ newline n @ CHR ''}'' # r) = Some (kvs, r)"
        using 6 False fuel by blast
      have o: "opens ?E" using False by (rule opens_members)
      then obtain c t where ct: "?E = c # t" and c: "\<not> isJsonWs c" "c \<noteq> CHR ''}''"
        by (cases ?E) (auto simp: opens_def)
      have "skipWs (?E @ newline n @ CHR ''}'' # r) = c # t @ newline n @ CHR ''}'' # r"
        using skipWs_opens[OF o] ct by simp
      then show ?thesis using False f ih c ct by simp
    qed
  qed
next
  case (7 n)
  show ?case by simp
next
  case (8 n x xs)
  show ?case
  proof (intro allI impI)
    fix f m r
    assume a: "2 * length (stringifyElements n (x # xs)) + 1 \<le> f"
    obtain f' where f: "f = Suc f'" using a by (cases f) auto
    let ?X = "stringifyAt n x"
    show "parseElements f (stringifyElements n (x # xs) @ newline m @ CHR '']'' # r)
          = Some (x # xs, r)"
    proof (cases "xs = []")
      case True
      have "2 * length ?X \<le> f'" using a f True by simp
      then have "parseValue f' (?X @ newline m @ CHR '']'' # r)
                 = Some (x, newline m @ CHR '']'' # r)"
        using 8(1) by simp
      then show ?thesis using True f by simp
    next
      case False
      let ?E = "stringifyElements n xs"
      have "2 * length ?X \<le> f'" using a f False by simp
      then have v: "parseValue f' (?X @ CHR '','' # newline n @ ?E @ newline m @ CHR '']'' # r)
                 = Some (x, CHR '','' # newline n @ ?E @ newline m @ CHR '']'' # r)"
        using 8(1) by simp
      have "2 * length ?E + 1 \<le> f'" using a f False by (simp add: newline_def)
      then have e: "parseElements f' (?E @ newline m @ CHR '']'' # r) = Some (xs, r)"
        using 8(2) False by blast
      show ?thesis using False f v e by simp
    qed
  qed
next
  case (9 n)
  show ?case by simp
next
  case (10 n kv kvs)
  show ?case
  proof (intro allI impI)
    fix f m r
    assume a: "2 * length (stringifyMembers n (kv # kvs)) + 1 \<le> f"
    obtain f' where f: "f = Suc f'" using a by (cases f) auto
    obtain k x where kv: "kv = (k, x)" by (cases kv)
    let ?X = "stringifyAt n x"
    have key: "parseChars (concat (map escapeChar k) @ CHR 0x22 # t) = Some (k, t)" for t
      by (rule parseChars_escaped)
    show "parseMembers f (stringifyMembers n (kv # kvs) @ newline m @ CHR ''}'' # r)
          = Some (kv # kvs, r)"
    proof (cases "kvs = []")
      case True
      have "2 * length ?X \<le> f'" using a f True kv by simp
      then have "parseValue f' (?X @ newline m @ CHR ''}'' # r)
                 = Some (x, newline m @ CHR ''}'' # r)"
        using 10(1) kv by simp
      then show ?thesis using True f kv key
        by (simp add: quoteJSONString_def parseValue_space)
    next
      case False
      let ?E = "stringifyMembers n kvs"
      have "2 * length ?X \<le> f'" using a f False kv by simp
      then have v: "parseValue f' (?X @ CHR '','' # newline n @ ?E @ newline m @ CHR ''}'' # r)
                 = Some (x, CHR '','' # newline n @ ?E @ newline m @ CHR ''}'' # r)"
        using 10(1) kv by simp
      have "2 * length ?E + 1 \<le> f'" using a f False by (simp add: newline_def)
      then have e: "parseMembers f' (?E @ newline m @ CHR ''}'' # r) = Some (kvs, r)"
        using 10(2) False by blast
      show ?thesis using False f v e kv key
        by (simp add: quoteJSONString_def parseValue_space)
    qed
  qed
qed

lemma JSON_parse_stringify: "JSON_parse (JSON_stringify j) = Some j"
proof -
  let ?s = "stringifyAt 0 j"
  have "2 * length ?s \<le> 2 * length ?s + 2" by simp
  then have "parseValue (2 * length ?s + 2) (?s @ []) = Some (j, [])"
    using parse_stringify(1)[of 0 j] okRest_simps(1) by blast
  then have p: "parseValue (2 * length ?s + 2) ?s = Some (j, [])" by (simp only: append_Nil2)
  show ?thesis
    unfolding JSON_parse_def JSON_stringify_def by (simp only: p) (simp add: skipWs_def)
qed

lemma fromTabJson_tabJson: "fromTabJson (tabJson t) = Some t"
  by (cases "favIconUrl t")
     (simp_all add: fromTabJson_def tabJson_def onlyKeys_def getProp_def optionalKey_def
       asString_def asOptionalString_def asNumber_def)

lemma those_map_Some: "(\<And>x. f (g x) = Some x) \<Longrightarrow> those (map (f \<circ> g) xs) = Some xs"
  by (induction xs) simp_all

lemma fromGroupJson_groupJson: "fromGroupJson (groupJson g) = Some g"
  by (cases "description g")
     (simp_all add: fromGroupJson_def groupJson_def onlyKeys_def getProp_def optionalKey_def
       asString_def asOptionalString_def asNumber_def asArray_def
       those_map_Some[of fromTabJson tabJson, OF fromTabJson_tabJson])

lemma fromSettingsJson_settingsJson: "fromSettingsJson (settingsJson s) = Some s"
  by (cases "oauthToken s"; cases "gistId s"; cases "githubClientId s";
      cases "githubClientSecret s")
     (simp_all add: fromSettingsJson_def settingsJson_def onlyKeys_def getProp_def
       optionalKey_def asBoolean_def asOptionalString_def)

lemma fromStorageJson_storageJson: "fromStorageJson (storageJson d) = Some d"
  by (simp add: fromStorageJson_def storageJson_def onlyKeys_def getProp_def asArray_def
      those_map_Some[of fromGroupJson groupJson, OF fromGroupJson_groupJson]
      fromSettingsJson_settingsJson)

lemma storageJson_checks:
  "storageJson d \<noteq> JNull" "truthyJson (getProp (storageJson d) ''groups'')"
  "truthyJson (getProp (storageJson d) ''settings'')"
  by (simp_all add: storageJson_def getProp_def settingsJson_def)

section \<open>Remote sync\<close>

lemma map_of_putKey: "map_of (putKey k v xs) k = Some v"
  by (induction xs) auto

lemma putKey_head: "putKey k v ((k, old) # xs) = (k, v) # xs"
  by simp

lemma getStorageData_pair: "getStorageData w = (fst (getStorageData w), snd (getStorageData w))"
  by simp

text \<open>
  With the service of section 6 and a gist whose first file is also the file that
  \<^verbatim>\<open>syncFromGist\<close> chooses, syncing to the gist and then from it returns, and stores,
  the document that was read locally.
\<close>

lemma sync_roundtrip_same_file:
  assumes gid: "gid \<noteq> []"
    and gist: "map_of c gid = Some ((fname, old) # others)"
    and fname: "fname \<noteq> []"
    and same: "dataFileName (fname # map fst others) = Some fname"
  shows "fst (syncToGist (gistService newId) tk (Some gid) (w, c)) = Inr ()
    \<and> fst (syncFromGist (gistService newId) tk gid
              (snd (syncToGist (gistService newId) tk (Some gid) (w, c))))
        = Inr (fst (getStorageData w))
    \<and> store (fst (snd (syncFromGist (gistService newId) tk gid
              (snd (syncToGist (gistService newId) tk (Some gid) (w, c))))))
        = Some (fst (getStorageData w))"
proof -
  let ?data = "fst (getStorageData w)"
  let ?w1 = "snd (getStorageData w)"
  let ?content = "JSON_stringify (storageJson ?data)"
  let ?c1 = "putKey gid ((fname, ?content) # others) c"
  have up: "updateGist (gistService newId) tk gid ?data c = (Inr (), ?c1)"
    using gist fname by (simp add: updateGist_def gistService_def targetFileName_def Let_def)
  have to: "syncToGist (gistService newId) tk (Some gid) (w, c) = (Inr (), (?w1, ?c1))"
    using gid up by (simp add: syncToGist_def split_def Let_def)
  have "syncFromGist (gistService newId) tk gid (?w1, ?c1)
        = (Inr ?data, (saveStorageData ?data ?w1, ?c1))"
    using same fname
    by (simp add: syncFromGist_def gistService_def map_of_putKey Let_def
        JSON_parse_stringify fromStorageJson_storageJson storageJson_checks)
  then show ?thesis by (simp add: to)
qed

lemma file_choice:
  "targetFileName [''notes.txt'', ''the-one-tab-data.json''] = ''notes.txt''"
  "dataFileName [''notes.txt'', ''the-one-tab-data.json''] = Some ''the-one-tab-data.json''"
  by code_simp+

text \<open>
  C2. Printing a document and parsing the text gives the document back
  (\<open>JSON_parse_stringify\<close>, \<open>fromStorageJson_storageJson\<close>), and a sync to a gist
  followed by a sync from it returns the local document when the file read is the file
  written (\<open>sync_roundtrip_same_file\<close>). The two functions do not choose the file in
  the same way, though: \<^verbatim>\<open>updateGist\<close> writes the first file of the gist,
  \<^verbatim>\<open>syncFromGist\<close> reads the first file whose name includes "the-one-tab". For a
  gist with the files notes.txt and the-one-tab-data.json, the sync to the gist succeeds
  and overwrites notes.txt, and the sync from the gist, with no local change in between,
  returns and stores the older document of the other file.
\<close>

theorem sync_roundtrip_broken_by_file_choice:
  "fst (getStorageData someWorld) = currentDocument
   \<and> syncToGist (gistService ''g2'') ''tok'' (Some ''gist1'') (someWorld, twoFileCloud)
       = (Inr (), (someWorld, twoFileCloudAfter))
   \<and> syncFromGist (gistService ''g2'') ''tok'' ''gist1'' (someWorld, twoFileCloudAfter)
       = (Inr oldDocument, (saveStorageData oldDocument someWorld, twoFileCloudAfter))
   \<and> oldDocument \<noteq> currentDocument"
proof (intro conjI)
  show d: "fst (getStorageData someWorld) = currentDocument"
    by (simp add: getStorageData_def someWorld_def currentDocument_def)
  have g: "getStorageData someWorld = (currentDocument, someWorld)"
    by (simp add: getStorageData_def someWorld_def currentDocument_def)
  have up: "updateGist (gistService ''g2'') ''tok'' ''gist1'' currentDocument twoFileCloud
            = (Inr (), twoFileCloudAfter)"
    using file_choice(1)
    by (simp add: updateGist_def gistService_def twoFileCloud_def twoFileCloudAfter_def Let_def)
  show "syncToGist (gistService ''g2'') ''tok'' (Some ''gist1'') (someWorld, twoFileCloud)
       = (Inr (), (someWorld, twoFileCloudAfter))"
    by (simp add: syncToGist_def g up)
  show "syncFromGist (gistService ''g2'') ''tok'' ''gist1'' (someWorld, twoFileCloudAfter)
       = (Inr oldDocument, (saveStorageData oldDocument someWorld, twoFileCloudAfter))"
    using file_choice(2)
    by (simp add: syncFromGist_def gistService_def twoFileCloudAfter_def Let_def
        JSON_parse_stringify fromStorageJson_storageJson storageJson_checks)
  show "oldDocument \<noteq> currentDocument"
    by (simp add: oldDocument_def currentDocument_def)
qed

end
